theory Spec2Isabelle
  imports Main "HOL-Library.Word" "HOL-Library.AList"
begin

section \<open>Buffers\<close>

text \<open>
  A Node \<open>Buffer\<close> is a list of bytes. The reads that the command server client uses
  throw a \<open>RangeError\<close> when the bytes asked for are not all inside the buffer;
  \<open>slice\<close> clamps to the buffer instead. \<open>toString\<close> throws a \<open>TypeError\<close>
  when it is given an encoding that the runtime does not know.
\<close>

type_synonym byte = "8 word"
type_synonym buffer = "byte list"

datatype error = RangeError | TypeError string | Error string

definition readUInt8 :: "buffer \<Rightarrow> nat \<Rightarrow> nat option" where
  "readUInt8 data offset =
     (if offset < length data then Some (unat (data ! offset)) else None)"

definition readUInt32BE :: "buffer \<Rightarrow> nat \<Rightarrow> nat option" where
  "readUInt32BE data offset =
     (if offset + 4 \<le> length data
      then Some (((unat (data ! offset) * 256 + unat (data ! (offset + 1))) * 256
                   + unat (data ! (offset + 2))) * 256 + unat (data ! (offset + 3)))
      else None)"

definition readInt32BE :: "buffer \<Rightarrow> nat \<Rightarrow> int option" where
  "readInt32BE data offset =
     (case readUInt32BE data offset of
        None \<Rightarrow> None
      | Some u \<Rightarrow> Some (if u < 2 ^ 31 then int u else int u - 2 ^ 32))"

definition slice :: "buffer \<Rightarrow> nat \<Rightarrow> nat \<Rightarrow> buffer" where
  "slice data start end = take (end - start) (drop start data)"

definition fromCharCode :: "nat \<Rightarrow> char" where
  "fromCharCode n = char_of n"

definition LINE_CHANNEL :: char where "LINE_CHANNEL = CHR ''L''"
definition RESULT_CHANNEL :: char where "RESULT_CHANNEL = CHR ''r''"
definition OUTPUT_CHANNEL :: char where "OUTPUT_CHANNEL = CHR ''o''"
definition ERROR_CHANNEL :: char where "ERROR_CHANNEL = CHR ''e''"

section \<open>The command server object\<close>

record IExecutionResult =
  exitCode :: int
  stdout :: string
  stderr :: string

text \<open>
  A \<open>Deferred\<close> is an object with identity; \<open>result\<close> holds the number under which
  \<open>defer\<close> created it. Calls of its \<open>resolve\<close> and \<open>reject\<close> are recorded in
  the order they happen.
\<close>

record PipelineCommand =
  cmd :: string
  args :: "string list"
  result :: nat

datatype settlement = Resolve IExecutionResult | Reject string

datatype promise = DeferredPromise nat | RejectedPromise string

datatype reason = Message string | Data buffer

datatype start_promise = Pending | Fulfilled nat | Rejected reason

datatype stdin_event =
    SendCommand "string option" string "string list"
  | SendLineInput "string option" string
  | End

record spawn_call =
  command :: string
  spawn_args :: "string list"
  env :: "(string \<times> string) list"
  cwd :: string

text \<open>
  The collaborators that are not part of this file: the decoding of a buffer in a named
  encoding (\<open>Buffer.toString\<close>, \<open>None\<close> for \<open>undefined\<close>), which throws or
  gives the text; the value that the interaction module's promise for a line request
  is resolved with; and the environment and working directory of the caller's process.
\<close>

record host =
  toString :: "string option \<Rightarrow> buffer \<Rightarrow> error + string"
  handleChoices :: "string \<Rightarrow> nat \<Rightarrow> string"
  process_env :: "(string \<times> string) list"
  process_cwd :: string

text \<open>
  The fields of \<open>HgCommandServer\<close>, then the variables that \<open>attachListeners\<close> closes
  over (\<open>exitCode'\<close> is its \<open>exitCode\<close>), then what the object has done to the outside:
  the processes it spawned (a process handle is its index in \<open>spawns\<close>), the process
  whose first \<open>data\<close> is still awaited and the promise of that \<open>start\<close>, the calls of
  \<open>resolve\<close> and \<open>reject\<close> on the commands' deferreds, the writes to the processes'
  standard input and the lines given to the logger.
\<close>

record HgCommandServer =
  hgPath :: string
  config :: "string list"
  serverProcess :: "nat option"
  starting :: bool
  encoding :: "string option"
  capabilities :: "string list option"
  commandQueue :: "PipelineCommand list"
  stopWhenQueueEmpty :: bool
  errorBuffers :: "buffer list"
  outputBodies :: "string list"
  errorBodies :: "string list"
  exitCode' :: "int option"
  spawns :: "spawn_call list"
  spawned :: "nat option"
  startPromise :: start_promise
  settled :: "(nat \<times> settlement) list"
  deferreds :: nat
  stdin :: "(nat \<times> stdin_event) list"
  logged :: "string list"

definition defaults :: "string list" where
  "defaults = [''serve'', ''--cmdserver'', ''pipe'']"

definition constructor :: "string list option \<Rightarrow> HgCommandServer" where
  "constructor hgOpts =
     \<lparr> hgPath = [], config = (case hgOpts of None \<Rightarrow> defaults | Some opts \<Rightarrow> opts), serverProcess = None, starting = False,
       encoding = None, capabilities = None, commandQueue = [],
       stopWhenQueueEmpty = False, errorBuffers = [], outputBodies = [],
       errorBodies = [], exitCode' = None, spawns = [], spawned = None,
       startPromise = Pending, settled = [], deferreds = 0, stdin = [], logged = [] \<rparr>"

subsection \<open>stop\<close>

text \<open>
  Removing the listeners and ending the standard input do not throw, so the \<open>catch\<close>
  block does not run. With \<open>serverProcess\<close> undefined no listener of
  \<open>attachListeners\<close> is attached to a process.
\<close>

definition stop :: "bool \<Rightarrow> HgCommandServer \<Rightarrow> HgCommandServer" where
  "stop force s =
     (case serverProcess s of
        None \<Rightarrow> s
      | Some p \<Rightarrow>
          if commandQueue s \<noteq> [] \<and> \<not> force
          then s\<lparr>stopWhenQueueEmpty := True\<rparr>
          else s\<lparr>stdin := stdin s @ [(p, End)], serverProcess := None\<rparr>)"

subsection \<open>runcommand, enqueueCommand, dequeueCommand\<close>

definition enqueueCommand ::
  "string \<Rightarrow> string list \<Rightarrow> HgCommandServer \<Rightarrow> promise \<times> HgCommandServer" where
  "enqueueCommand c as s =
     (case serverProcess s of
        Some p \<Rightarrow>
          let command = \<lparr>cmd = c, args = as, result = deferreds s\<rparr>
          in (DeferredPromise (result command),
              s\<lparr>deferreds := deferreds s + 1,
                commandQueue := commandQueue s @ [command],
                stdin := stdin s @ [(p, SendCommand (encoding s) c as)]\<rparr>)
      | None \<Rightarrow> (RejectedPromise ''HGCommandServer is not started'', s))"

definition runcommand :: "string list \<Rightarrow> HgCommandServer \<Rightarrow> promise \<times> HgCommandServer" where
  "runcommand as s = enqueueCommand ''runcommand'' as s"

definition dequeueCommand :: "HgCommandServer \<Rightarrow> PipelineCommand option \<times> HgCommandServer" where
  "dequeueCommand s =
     (case commandQueue s of
        [] \<Rightarrow> (None, s)
      | c # q \<Rightarrow> (Some c, s\<lparr>commandQueue := q\<rparr>))"

subsection \<open>The listeners of attachListeners\<close>

definition reset :: "HgCommandServer \<Rightarrow> HgCommandServer" where
  "reset s = s\<lparr>errorBodies := [], errorBuffers := [], outputBodies := [], exitCode' := None\<rparr>"

text \<open>
  One turn of the \<open>while\<close> loop of the \<open>data\<close> listener either goes on at a new
  offset, or returns from the listener, or throws, or waits at the \<open>await\<close> for the
  answer to a line request: \<open>handleChoices\<close> has been called with the output so far and
  the requested length, and the listener goes on at the offset once the promise is
  resolved. \<open>p\<close> is the process that \<open>attachListeners\<close> captured.
\<close>

datatype step =
    Continue nat HgCommandServer
  | Return HgCommandServer
  | Throw error HgCommandServer
  | Await string nat nat HgCommandServer

text \<open>The end of the loop body: \<open>if (exitCode !== undefined) { ... }\<close>.\<close>

definition closeCommand :: "nat \<Rightarrow> HgCommandServer \<Rightarrow> step" where
  "closeCommand offset s =
     (case exitCode' s of
        None \<Rightarrow> Continue offset s
      | Some code \<Rightarrow>
          let res = \<lparr>exitCode = code, stdout = concat (outputBodies s),
                     stderr = concat (errorBodies s)\<rparr>;
              s1 = reset s;
              (command, s2) = dequeueCommand s1;
              s3 = (case command of
                      Some c \<Rightarrow> s2\<lparr>settled := settled s2 @ [(result c, Resolve res)]\<rparr>
                    | None \<Rightarrow> s2)
          in if stopWhenQueueEmpty s3 \<and> length (commandQueue s3) = 0
             then Return (stop False s3)
             else Continue offset s3)"

definition loopBody :: "host \<Rightarrow> nat \<Rightarrow> buffer \<Rightarrow> nat \<Rightarrow> HgCommandServer \<Rightarrow> step" where
  "loopBody h p data offset s =
     (case readUInt8 data offset of
        None \<Rightarrow> Throw RangeError s
      | Some b \<Rightarrow>
          let chan = fromCharCode b in
          (case readUInt32BE data (offset + 1) of
             None \<Rightarrow> Throw RangeError s
           | Some len \<Rightarrow>
               let offset = offset + 5 in
               if chan = RESULT_CHANNEL then
                 (case readUInt32BE data offset of
                    None \<Rightarrow> Throw RangeError s
                  | Some code \<Rightarrow>
                      closeCommand (offset + len) (s\<lparr>exitCode' := Some (int code)\<rparr>))
               else if chan = LINE_CHANNEL then
                 let out = concat (outputBodies s)
                 in Await out len offset s
               else
                 let bodySlice = slice data offset (offset + len) in
                 (case toString h (encoding s) bodySlice of
                    Inl e \<Rightarrow> Throw e s
                  | Inr body \<Rightarrow>
                      let s1 = (if chan = OUTPUT_CHANNEL
                                then s\<lparr>outputBodies := outputBodies s @ [body]\<rparr>
                                else if chan = ERROR_CHANNEL
                                then s\<lparr>errorBodies := errorBodies s @ [body]\<rparr>
                                else s)
                      in closeCommand (offset + len) s1)))"

text \<open>
  The rest of the loop body after the \<open>await\<close>, with the response that the promise
  was resolved with: the response is written to the process, the offset stays, and the
  end of the loop body follows.
\<close>

definition afterAwait :: "nat \<Rightarrow> nat \<Rightarrow> string \<Rightarrow> HgCommandServer \<Rightarrow> step" where
  "afterAwait p offset response s =
     closeCommand (offset + 0)
       (s\<lparr>stdin := stdin s @ [(p, SendLineInput (encoding s) response)]\<rparr>)"

lemma closeCommand_offset:
  "closeCommand offset s = Continue offset' s' \<Longrightarrow> offset' = offset"
  by (auto simp: closeCommand_def Let_def split: option.splits prod.splits if_splits)

lemma loopBody_advances:
  "loopBody h p data offset s = Continue offset' s' \<Longrightarrow> offset + 5 \<le> offset'"
  by (auto simp: loopBody_def Let_def split: option.splits if_splits sum.splits
           dest!: closeCommand_offset)

text \<open>
  A run of the listener ends by returning, by throwing, or suspended at an \<open>await\<close>
  with the request made, the offset to go on at and the object as it is then.
\<close>

datatype completion =
    Returned HgCommandServer
  | Threw error HgCommandServer
  | Suspended string nat nat HgCommandServer

function stdoutLoop ::
  "host \<Rightarrow> nat \<Rightarrow> buffer \<Rightarrow> nat \<Rightarrow> HgCommandServer \<Rightarrow> completion" where
  "stdoutLoop h p data offset s =
     (if offset < length data
      then (case loopBody h p data offset s of
              Continue offset' s' \<Rightarrow> stdoutLoop h p data offset' s'
            | Return s' \<Rightarrow> Returned s'
            | Throw e s' \<Rightarrow> Threw e s'
            | Await out len offset' s' \<Rightarrow> Suspended out len offset' s')
      else Returned s)"
  by pat_completeness auto
termination
proof (relation "measure (\<lambda>(h, p, data, offset, s). length data - offset)")
  show "wf (measure (\<lambda>(h, p, data, offset, s). length data - offset))"
    by simp
next
  fix h :: host and p data offset s offset' s'
  assume "offset < length data" and "loopBody h p data offset s = Continue offset' s'"
  then show "((h, p, data, offset', s'), (h, p, data, offset, s))
               \<in> measure (\<lambda>(h, p, data, offset, s). length data - offset)"
    using loopBody_advances [of h p data offset s offset' s'] by simp
qed

declare stdoutLoop.simps [simp del]

text \<open>
  The \<open>data\<close> event of the running process's standard output. After \<open>stop\<close> has
  removed the listeners the event reaches nobody.
\<close>

definition stdoutData :: "host \<Rightarrow> buffer \<Rightarrow> HgCommandServer \<Rightarrow> completion" where
  "stdoutData h data s =
     (case serverProcess s of
        None \<Rightarrow> Returned s
      | Some p \<Rightarrow> stdoutLoop h p data 0 s)"

definition stateOf :: "completion \<Rightarrow> HgCommandServer" where
  "stateOf c =
     (case c of Returned s \<Rightarrow> s | Threw e s \<Rightarrow> s | Suspended out len offset s \<Rightarrow> s)"

text \<open>
  A suspended listener goes on when the promise of \<open>handleChoices\<close> is resolved.
\<close>

definition resumeListener ::
  "host \<Rightarrow> nat \<Rightarrow> buffer \<Rightarrow> nat \<Rightarrow> string \<Rightarrow> HgCommandServer \<Rightarrow> completion" where
  "resumeListener h p data offset response s =
     (case afterAwait p offset response s of
        Continue offset' s' \<Rightarrow> stdoutLoop h p data offset' s'
      | Return s' \<Rightarrow> Returned s'
      | Throw e s' \<Rightarrow> Threw e s'
      | Await out len offset' s' \<Rightarrow> Suspended out len offset' s')"

lemma loopBody_Await:
  "loopBody h p data offset s = Await out len offset' s' \<Longrightarrow> offset' = offset + 5"
  by (auto simp: loopBody_def Let_def closeCommand_def
           split: option.splits if_splits sum.splits prod.splits)

lemma stdoutLoop_Suspended:
  "stdoutLoop h p data offset s = Suspended out len offset' s' \<Longrightarrow>
     offset < length data \<and> offset < offset'"
proof (induction h p data offset s rule: stdoutLoop.induct)
  case (1 h p data offset s)
  have lt: "offset < length data"
    using "1.prems" by (subst (asm) stdoutLoop.simps) (simp split: if_splits)
  show ?case
  proof (cases "loopBody h p data offset s")
    case (Continue k s1)
    then have "stdoutLoop h p data k s1 = Suspended out len offset' s'"
      using "1.prems" lt by (subst (asm) stdoutLoop.simps) simp
    then have "k < offset'" using "1.IH" [OF lt Continue] by simp
    then show ?thesis using lt loopBody_advances [OF Continue] by simp
  next
    case (Return s1)
    then show ?thesis using "1.prems" lt by (subst (asm) stdoutLoop.simps) simp
  next
    case (Throw e s1)
    then show ?thesis using "1.prems" lt by (subst (asm) stdoutLoop.simps) simp
  next
    case (Await out1 len1 k s1)
    then have "offset' = k" using "1.prems" lt by (subst (asm) stdoutLoop.simps) simp
    then show ?thesis using lt loopBody_Await [OF Await] by simp
  qed
qed

text \<open>
  The whole work of the listener on one arrival when the interaction module answers
  every line request before anything else happens to the object.
\<close>

function stdoutLoopAnswered ::
  "host \<Rightarrow> nat \<Rightarrow> buffer \<Rightarrow> nat \<Rightarrow> HgCommandServer \<Rightarrow> completion" where
  "stdoutLoopAnswered h p data offset s =
     (case stdoutLoop h p data offset s of
        Suspended out len offset' s' \<Rightarrow>
          (case afterAwait p offset' (handleChoices h out len) s' of
             Continue offset'' s'' \<Rightarrow> stdoutLoopAnswered h p data offset'' s''
           | Return s'' \<Rightarrow> Returned s''
           | Throw e s'' \<Rightarrow> Threw e s''
           | Await out' len' offset'' s'' \<Rightarrow> Suspended out' len' offset'' s'')
      | Returned s' \<Rightarrow> Returned s'
      | Threw e s' \<Rightarrow> Threw e s')"
  by pat_completeness auto
termination
proof (relation "measure (\<lambda>(h, p, data, offset, s). length data - offset)")
  show "wf (measure (\<lambda>(h, p, data, offset, s). length data - offset))"
    by simp
next
  fix h :: host and p data offset s out len offset' s' offset'' s''
  assume "stdoutLoop h p data offset s = Suspended out len offset' s'"
    and "afterAwait p offset' (handleChoices h out len) s' = Continue offset'' s''"
  then show "((h, p, data, offset'', s''), (h, p, data, offset, s))
               \<in> measure (\<lambda>(h, p, data, offset, s). length data - offset)"
    using stdoutLoop_Suspended [of h p data offset s out len offset' s']
    by (auto simp: afterAwait_def dest: closeCommand_offset)
qed

declare stdoutLoopAnswered.simps [simp del]

definition stdoutDataAnswered :: "host \<Rightarrow> buffer \<Rightarrow> HgCommandServer \<Rightarrow> completion" where
  "stdoutDataAnswered h data s =
     (case serverProcess s of
        None \<Rightarrow> Returned s
      | Some p \<Rightarrow> stdoutLoopAnswered h p data 0 s)"

text \<open>
  The \<open>data\<close> event of the running process's standard error. The listener that
  \<open>spawnCommandServerProcess\<close> attached prints the data on the console, which is not
  recorded here; the listener of \<open>attachListeners\<close> keeps it.
\<close>

definition stderrData :: "buffer \<Rightarrow> HgCommandServer \<Rightarrow> HgCommandServer" where
  "stderrData data s =
     (case serverProcess s of
        None \<Rightarrow> s
      | Some p \<Rightarrow> s\<lparr>errorBuffers := errorBuffers s @ [data]\<rparr>)"

subsection \<open>Spawning and the first output burst\<close>

text \<open>
  An object is the list of its properties in the order they were created; writing a
  property that exists replaces its value in place. The spread copies the properties
  of \<open>process.env\<close> one after the other into the object literal.
\<close>

definition processEnv :: "host \<Rightarrow> (string \<times> string) list" where
  "processEnv h =
     foldl (\<lambda>obj (k, v). AList.update k v obj) [(''HGENCODING'', ''UTF-8'')] (process_env h)"

definition spawnHgServer :: "host \<Rightarrow> string \<Rightarrow> HgCommandServer \<Rightarrow> nat \<times> HgCommandServer" where
  "spawnHgServer h path s =
     (let spawnOpts = \<lparr>command = ''hg'', spawn_args = config s, env = processEnv h,
                        cwd = (if path = [] then process_cwd h else path)\<rparr>
      in (length (spawns s), s\<lparr>spawns := spawns s @ [spawnOpts]\<rparr>))"

text \<open>
  The two regular expressions of \<open>parseCapabilitiesAndEncoding\<close>. A dot matches every
  character but a line terminator, and a lazy group that must be followed by a line
  feed ends at the first line terminator; \<open>$\<close> is the end of the text, since neither
  expression has the multiline flag. Characters are bytes here, so the line terminators
  are line feed and carriage return. \<open>exec\<close> tries the start positions from the left.
\<close>

definition lineTerminator :: "char \<Rightarrow> bool" where
  "lineTerminator c = (c = CHR 0x0A \<or> c = CHR 0x0D)"

fun stripPrefix :: "string \<Rightarrow> string \<Rightarrow> string option" where
  "stripPrefix [] xs = Some xs"
| "stripPrefix (p # ps) [] = None"
| "stripPrefix (p # ps) (x # xs) = (if p = x then stripPrefix ps xs else None)"

definition matchFirst :: "string \<Rightarrow> (string \<times> string) option" where
  "matchFirst xs =
     (case stripPrefix ''capabilities: '' xs of
        None \<Rightarrow> None
      | Some r \<Rightarrow>
          (case stripPrefix (CHR 0x0A # ''encoding: '')
                  (dropWhile (\<lambda>c. \<not> lineTerminator c) r) of
             None \<Rightarrow> None
           | Some e \<Rightarrow>
               if list_ex lineTerminator e then None
               else Some (takeWhile (\<lambda>c. \<not> lineTerminator c) r, e)))"

definition matchSecond :: "string \<Rightarrow> (string \<times> string) option" where
  "matchSecond xs =
     (case stripPrefix ''capabilities: '' xs of
        None \<Rightarrow> None
      | Some r \<Rightarrow>
          (case stripPrefix (CHR 0x0A # ''encoding: '')
                  (dropWhile (\<lambda>c. \<not> lineTerminator c) r) of
             None \<Rightarrow> None
           | Some e \<Rightarrow>
               (case dropWhile (\<lambda>c. \<not> lineTerminator c) e of
                  [] \<Rightarrow> None
                | c # rest \<Rightarrow>
                    if c = CHR 0x0A \<and> \<not> list_ex lineTerminator rest
                    then Some (takeWhile (\<lambda>c. \<not> lineTerminator c) r,
                               takeWhile (\<lambda>c. \<not> lineTerminator c) e)
                    else None)))"

fun exec :: "(string \<Rightarrow> 'a option) \<Rightarrow> string \<Rightarrow> 'a option" where
  "exec m [] = m []"
| "exec m (x # xs) = (case m (x # xs) of Some r \<Rightarrow> Some r | None \<Rightarrow> exec m xs)"

fun splitOn :: "char \<Rightarrow> string \<Rightarrow> string list" where
  "splitOn sep [] = [[]]"
| "splitOn sep (c # cs) =
     (if c = sep then [] # splitOn sep cs
      else (case splitOn sep cs of
              w # ws \<Rightarrow> (c # w) # ws
            | [] \<Rightarrow> [[c]]))"

definition parseCapabilitiesAndEncoding :: "string \<Rightarrow> error + (string list \<times> string)" where
  "parseCapabilitiesAndEncoding data =
     (let matches = (case exec matchFirst data of
                       Some m \<Rightarrow> Some m
                     | None \<Rightarrow> exec matchSecond data)
      in case matches of
           None \<Rightarrow> Inl (Error (''Unable to parse capabilities: '' @ data))
         | Some (caps, enc) \<Rightarrow> Inr (splitOn CHR '' '' caps, enc))"

text \<open>The decimal text of a number, as string concatenation and \<open>exec\<close> make it.\<close>

function digits :: "nat \<Rightarrow> string" where
  "digits n =
     (if n < 10 then [char_of (48 + n)]
      else digits (n div 10) @ [char_of (48 + n mod 10)])"
  by pat_completeness auto
termination
  by (relation "measure (\<lambda>n. n)") auto

declare digits.simps [simp del]

definition numberToString :: "int \<Rightarrow> string" where
  "numberToString i = (if i < 0 then CHR ''-'' # digits (nat (- i)) else digits (nat i))"

text \<open>
  \<open>spawnCommandServerProcess\<close> up to the return of its promise, and \<open>start\<close> up to its
  \<open>await\<close>.
\<close>

definition spawnCommandServerProcess :: "host \<Rightarrow> string \<Rightarrow> HgCommandServer \<Rightarrow> HgCommandServer" where
  "spawnCommandServerProcess h path s =
     (let s1 = s\<lparr>starting := True\<rparr>;
          (process, s2) = spawnHgServer h path s1
      in s2\<lparr>spawned := Some process, startPromise := Pending\<rparr>)"

definition start :: "host \<Rightarrow> string \<Rightarrow> HgCommandServer \<Rightarrow> HgCommandServer" where
  "start h path s = spawnCommandServerProcess h path (s\<lparr>hgPath := path\<rparr>)"

definition startServer :: "host \<Rightarrow> string \<Rightarrow> string \<Rightarrow> HgCommandServer" where
  "startServer h path repository =
     start h path
       (constructor (Some [''--config'', ''ui.interactive=True'', ''serve'', ''--cmdserver'',
                           ''pipe'', ''--cwd'', repository]))"

text \<open>
  \<open>attachListeners\<close> gives the new listeners fresh variables. The rest of \<open>start\<close>
  runs once the promise of \<open>spawnCommandServerProcess\<close> is fulfilled.
\<close>

definition attachListeners :: "HgCommandServer \<Rightarrow> HgCommandServer" where
  "attachListeners s = (case serverProcess s of None \<Rightarrow> s | Some p \<Rightarrow> reset s)"

definition startResumed :: "nat \<Rightarrow> HgCommandServer \<Rightarrow> HgCommandServer" where
  "startResumed process s = attachListeners (s\<lparr>serverProcess := Some process\<rparr>)"

definition settleStart :: "start_promise \<Rightarrow> HgCommandServer \<Rightarrow> HgCommandServer" where
  "settleStart outcome s =
     (if startPromise s = Pending then s\<lparr>startPromise := outcome\<rparr> else s)"

text \<open>
  The listener of the first \<open>data\<close> of the spawned process's standard output
  (\<open>once\<close>). A throw leaves the listener without calling \<open>c\<close> or \<open>e\<close>.
\<close>

definition handshakeBody :: "host \<Rightarrow> HgCommandServer \<Rightarrow> char \<Rightarrow> buffer \<Rightarrow> error + string" where
  "handshakeBody h s chan bodyData =
     (if chan = CHR ''r''
      then (case readInt32BE bodyData 0 of
              None \<Rightarrow> Inl RangeError
            | Some n \<Rightarrow> Inr (numberToString n))
      else (case toString h (encoding s) bodyData of
              Inl e \<Rightarrow> Inl e
            | Inr text \<Rightarrow> Inr (filter (\<lambda>c. c \<noteq> CHR 0x00) text)))"

definition firstData :: "host \<Rightarrow> buffer \<Rightarrow> HgCommandServer \<Rightarrow> completion" where
  "firstData h data s =
     (case spawned s of
        None \<Rightarrow> Returned s
      | Some process \<Rightarrow>
          let s1 = s\<lparr>spawned := None, starting := False\<rparr> in
          (case readUInt8 data 0 of
             None \<Rightarrow> Threw RangeError s1
           | Some b \<Rightarrow>
               let chan = fromCharCode b in
               (case readUInt32BE data 1 of
                  None \<Rightarrow> Threw RangeError s1
                | Some bodyLength \<Rightarrow>
                    let bodyData = slice data 5 (5 + bodyLength) in
                    (case handshakeBody h s1 chan bodyData of
                       Inl e \<Rightarrow> Threw e s1
                     | Inr body \<Rightarrow>
                         (case parseCapabilitiesAndEncoding body of
                            Inl e \<Rightarrow> Threw e s1
                          | Inr (caps, enc) \<Rightarrow>
                              let s2 = s1\<lparr>capabilities := Some caps, encoding := Some enc\<rparr>;
                                  s3 = (if ''runcommand'' \<notin> set caps
                                        then settleStart (Rejected (Message ''runcommand not available'')) s2
                                        else s2);
                                  s4 = settleStart (Fulfilled process) s3
                              in Returned (if startPromise s4 = Fulfilled process
                                           then startResumed process s4 else s4))))))"

text \<open>The \<open>data\<close> of the spawned process's standard error before its first output.\<close>

definition firstStderr :: "buffer \<Rightarrow> HgCommandServer \<Rightarrow> HgCommandServer" where
  "firstStderr data s =
     (case spawned s of
        None \<Rightarrow> s
      | Some process \<Rightarrow> if starting s then settleStart (Rejected (Data data)) s else s)"

text \<open>The \<open>exit\<close> listener of attachListeners.\<close>

definition exitMessage :: "int option \<Rightarrow> string" where
  "exitMessage code =
     ''hg command server was closed unexpectedly: ''
       @ (case code of None \<Rightarrow> ''null'' | Some n \<Rightarrow> numberToString n) @ [CHR 0x0A]"

definition exitEvent :: "host \<Rightarrow> int option \<Rightarrow> HgCommandServer \<Rightarrow> HgCommandServer" where
  "exitEvent h code s =
     (case serverProcess s of
        None \<Rightarrow> s
      | Some p \<Rightarrow>
          let s1 = s\<lparr>logged := logged s @ [exitMessage code]\<rparr>;
              s2 = stop True s1
          in start h (hgPath s2) s2)"

subsection \<open>getChanName\<close>

definition getChanName :: "char \<Rightarrow> error + string" where
  "getChanName chan =
     (if chan = CHR ''o'' then Inr ''output''
      else if chan = CHR ''r'' then Inr ''result''
      else if chan = CHR ''e'' then Inr ''error''
      else if chan = CHR ''d'' then Inr ''debug''
      else Inl (Error (''Unknown channel '' @ [CHR 0x27, chan, CHR 0x27])))"

subsection \<open>The object over time\<close>

text \<open>
  What can happen to the object: calls of its public methods and events of its
  processes, where the interaction module answers every line request before the next
  call or event, so that each listener has run to its end by then.
\<close>

datatype event =
    Runcommand "string list"
  | Stop bool
  | StdoutData buffer
  | StderrData buffer
  | Exit "int option"
  | FirstData buffer
  | FirstStderr buffer

fun react :: "host \<Rightarrow> event \<Rightarrow> HgCommandServer \<Rightarrow> HgCommandServer" where
  "react h (Runcommand as) s = snd (runcommand as s)"
| "react h (Stop force) s = stop force s"
| "react h (StdoutData data) s = stateOf (stdoutDataAnswered h data s)"
| "react h (StderrData data) s = stderrData data s"
| "react h (Exit code) s = exitEvent h code s"
| "react h (FirstData data) s = stateOf (firstData h data s)"
| "react h (FirstStderr data) s = firstStderr data s"

inductive reachable :: "host \<Rightarrow> HgCommandServer \<Rightarrow> bool" for h :: host where
  started: "reachable h (startServer h path repository)"
| reacted: "reachable h s \<Longrightarrow> reachable h (react h e s)"

section \<open>The wire format\<close>

text \<open>
  What the command server sends for a command: frames of a channel byte, a length of
  four bytes, most significant first, and the body. A result frame's body is the exit
  code in four bytes, a signed integer, most significant byte first. (A line request,
  channel \<open>L\<close>, has no body; its length field is the size asked for.)
\<close>

definition writeUInt32BE :: "nat \<Rightarrow> buffer" where
  "writeUInt32BE n =
     [of_nat (n div 2 ^ 24), of_nat (n div 2 ^ 16), of_nat (n div 2 ^ 8), of_nat n]"

datatype frame =
    OutputFrame buffer
  | ErrorFrame buffer
  | DebugFrame buffer
  | ResultFrame "32 word"

fun encodeFrame :: "frame \<Rightarrow> buffer" where
  "encodeFrame (OutputFrame body) = 0x6F # writeUInt32BE (length body) @ body"
| "encodeFrame (ErrorFrame body) = 0x65 # writeUInt32BE (length body) @ body"
| "encodeFrame (DebugFrame body) = 0x64 # writeUInt32BE (length body) @ body"
| "encodeFrame (ResultFrame code) = 0x72 # writeUInt32BE 4 @ writeUInt32BE (unat code)"

definition lineRequest :: "nat \<Rightarrow> buffer" where
  "lineRequest n = 0x4C # writeUInt32BE n"

definition encodeFrames :: "frame list \<Rightarrow> buffer" where
  "encodeFrames fs = concat (map encodeFrame fs)"

fun wellFormed :: "frame \<Rightarrow> bool" where
  "wellFormed (OutputFrame body) = (length body < 2 ^ 32)"
| "wellFormed (ErrorFrame body) = (length body < 2 ^ 32)"
| "wellFormed (DebugFrame body) = (length body < 2 ^ 32)"
| "wellFormed (ResultFrame code) = True"


text \<open>The body of the frame is text in the encoding, for the host's decoder.\<close>

fun decodable :: "host \<Rightarrow> string option \<Rightarrow> frame \<Rightarrow> bool" where
  "decodable h enc (OutputFrame body) =
     (case toString h enc body of Inl e \<Rightarrow> False | Inr text \<Rightarrow> True)"
| "decodable h enc (ErrorFrame body) =
     (case toString h enc body of Inl e \<Rightarrow> False | Inr text \<Rightarrow> True)"
| "decodable h enc (DebugFrame body) =
     (case toString h enc body of Inl e \<Rightarrow> False | Inr text \<Rightarrow> True)"
| "decodable h enc (ResultFrame code) = True"


text \<open>
  Text as bytes and back, one byte for each character, as every encoding that extends
  ASCII does for ASCII text.
\<close>

definition bytes :: "string \<Rightarrow> buffer" where
  "bytes text = map (\<lambda>c. of_nat (of_char c)) text"

definition byteText :: "buffer \<Rightarrow> string" where
  "byteText b = map (\<lambda>x. char_of (unat x)) b"

text \<open>
  Two hosts for the examples. The first decodes in every encoding; the second knows
  no encoding by the name \<open>cp1252\<close>, and its decoder throws when it is given that name
  and a buffer that is not empty.
\<close>

definition exampleHost :: host where
  "exampleHost = \<lparr>toString = (\<lambda>enc b. Inr (byteText b)), handleChoices = (\<lambda>out n. ''yes''),
     process_env = [], process_cwd = ''/repo''\<rparr>"

definition strictHost :: host where
  "strictHost = \<lparr>toString = (\<lambda>enc b. if enc = Some ''cp1252'' \<and> b \<noteq> []
                                      then Inl (TypeError ''Unknown encoding: cp1252'')
                                      else Inr (byteText b)),
     handleChoices = (\<lambda>out n. ''yes''), process_env = [], process_cwd = ''/repo''\<rparr>"

text \<open>
  What the \<open>data\<close> listener does with whole frames, frame by frame: the change made
  by the branch of the loop body that the channel selects, then the end of the loop
  body. \<open>stdoutLoop_frames\<close> proves that the listener does this on the encoded frames.
\<close>

fun frameEffect :: "host \<Rightarrow> frame \<Rightarrow> HgCommandServer \<Rightarrow> error + HgCommandServer" where
  "frameEffect h (OutputFrame body) s =
     (case toString h (encoding s) body of
        Inl e \<Rightarrow> Inl e
      | Inr text \<Rightarrow> Inr (s\<lparr>outputBodies := outputBodies s @ [text]\<rparr>))"
| "frameEffect h (ErrorFrame body) s =
     (case toString h (encoding s) body of
        Inl e \<Rightarrow> Inl e
      | Inr text \<Rightarrow> Inr (s\<lparr>errorBodies := errorBodies s @ [text]\<rparr>))"
| "frameEffect h (DebugFrame body) s =
     (case toString h (encoding s) body of
        Inl e \<Rightarrow> Inl e
      | Inr text \<Rightarrow> Inr s)"
| "frameEffect h (ResultFrame code) s = Inr (s\<lparr>exitCode' := Some (int (unat code))\<rparr>)"

fun dispatch :: "host \<Rightarrow> frame list \<Rightarrow> HgCommandServer \<Rightarrow> completion" where
  "dispatch h [] s = Returned s"
| "dispatch h (f # fs) s =
     (case frameEffect h f s of
        Inl e \<Rightarrow> Threw e s
      | Inr s1 \<Rightarrow>
          (case closeCommand 0 s1 of
             Continue k s' \<Rightarrow> dispatch h fs s'
           | Return s' \<Rightarrow> Returned s'
           | Throw e s' \<Rightarrow> Threw e s'
           | Await out len k s' \<Rightarrow> Suspended out len k s'))"

section \<open>Commands and arrivals\<close>










section \<open>Invariants\<close>

text \<open>
  In a steady object a running server process is not awaiting its first output, and
  the stop-when-empty flag is set only while commands are pending, or after the last
  process was released.
\<close>

definition steady :: "HgCommandServer \<Rightarrow> bool" where
  "steady s =
     ((serverProcess s \<noteq> None \<longrightarrow> spawned s = None) \<and>
      (stopWhenQueueEmpty s \<longrightarrow>
         commandQueue s \<noteq> [] \<or> (serverProcess s = None \<and> spawned s = None)))"





section \<open>A running server\<close>

definition greeting :: buffer where
  "greeting = encodeFrames [OutputFrame (bytes
     (''capabilities: getencoding runcommand'' @ [CHR 0x0A] @ ''encoding: UTF-8''))]"

definition exampleServer :: HgCommandServer where
  "exampleServer = stateOf (firstData exampleHost greeting (startServer exampleHost ''hg'' ''/repo''))"

definition oneCommand :: HgCommandServer where
  "oneCommand = snd (runcommand [''status''] exampleServer)"

text \<open>
  A server that announces the encoding \<open>cp1252\<close>, on the second host, with one
  command pending.
\<close>

definition legacyGreeting :: buffer where
  "legacyGreeting = encodeFrames [OutputFrame (bytes
     (''capabilities: getencoding runcommand'' @ [CHR 0x0A] @ ''encoding: cp1252''))]"

definition legacyCommand :: HgCommandServer where
  "legacyCommand =
     snd (runcommand [''status'']
            (stateOf (firstData strictHost legacyGreeting (startServer strictHost ''hg'' ''/repo''))))"

text \<open>
  A deferred stop that outlives a restart. One command is pending when a line request
  arrives, followed in the same arrival by a result frame; the listener waits for the
  answer. Meanwhile \<open>stop\<close> is called, which defers the stop, and the process exits,
  so that the object releases it and spawns the next. Then the answer comes: the
  listener goes on, hands the answer to the interaction module for the process that
  has exited, reads the result frame, resolves the command and finds no process to
  stop. \<open>drained\<close> is the object then, \<open>restarted\<close> the object after the first output
  of the new process.
\<close>

definition drained :: HgCommandServer where
  "drained =
     stateOf (resumeListener exampleHost 0 (lineRequest 4 @ encodeFrames [ResultFrame 0]) 5
                ''yes'' (exitEvent exampleHost (Some 1) (stop False oneCommand)))"

definition restarted :: HgCommandServer where
  "restarted = stateOf (firstData exampleHost greeting drained)"


section \<open>Properties\<close>

subsection \<open>Reading what was written\<close>

lemma unat_byte_less: "unat (b :: byte) < 256"
  using unsigned_less [of b, where 'a = nat] by simp

lemma fromCharCode_eq_iff: "(fromCharCode (unat (b :: byte)) = c) = (unat b = of_char c)"
proof -
  have "take_bit 8 (unat b) = unat b"
    using unat_byte_less [of b] by (simp add: take_bit_nat_eq_self)
  then show ?thesis by (simp add: fromCharCode_def char_of_eq_iff)
qed

lemma be32: "(n::nat) < 2 ^ 32 \<Longrightarrow>
  ((n div 2 ^ 24 mod 256 * 256 + n div 2 ^ 16 mod 256) * 256 + n div 2 ^ 8 mod 256) * 256
    + n mod 256 = n"
proof -
  assume n: "n < 2 ^ 32"
  define a where "a = n div 256"
  define b where "b = a div 256"
  define c where "c = b div 256"
  have e1: "n = a * 256 + n mod 256" by (simp add: a_def)
  have e2: "a = b * 256 + a mod 256" by (simp add: b_def)
  have e3: "b = c * 256 + b mod 256" by (simp add: c_def)
  have c: "c < 256"
    using n by (simp add: a_def b_def c_def div_mult2_eq [symmetric] less_mult_imp_div_less)
  have x1: "n div 2 ^ 8 = a" by (simp add: a_def)
  have x2: "n div 2 ^ 16 = b" by (simp add: a_def b_def div_mult2_eq [symmetric])
  have x3: "n div 2 ^ 24 = c" by (simp add: a_def b_def c_def div_mult2_eq [symmetric])
  show ?thesis unfolding x1 x2 x3 using e1 e2 e3 c by simp
qed

lemma length_writeUInt32BE [simp]: "length (writeUInt32BE n) = 4"
  by (simp add: writeUInt32BE_def)

lemma readUInt32BE_write:
  assumes "n < 2 ^ 32" and "length pre = k"
  shows "readUInt32BE (pre @ writeUInt32BE n @ post) k = Some n"
proof -
  have "readUInt32BE (pre @ writeUInt32BE n @ post) k
          = Some (((n div 2 ^ 24 mod 256 * 256 + n div 2 ^ 16 mod 256) * 256
                     + n div 2 ^ 8 mod 256) * 256 + n mod 256)"
    using assms(2)
    by (simp add: readUInt32BE_def writeUInt32BE_def nth_append unat_of_nat)
  then show ?thesis by (simp only: be32 [OF assms(1)])
qed

lemma readUInt8_at: "length pre = k \<Longrightarrow> readUInt8 (pre @ b # post) k = Some (unat b)"
  by (auto simp: readUInt8_def nth_append)

lemma slice_at: "length pre = k \<Longrightarrow> slice (pre @ body @ post) k (k + length body) = body"
  by (simp add: slice_def)

lemma fromCharCode_nat: "n < 256 \<Longrightarrow> (fromCharCode n = c) = (n = of_char c)"
  by (simp add: fromCharCode_def char_of_eq_iff take_bit_nat_eq_self)

lemma tags [simp]:
  "fromCharCode 111 = OUTPUT_CHANNEL"
  "fromCharCode 101 = ERROR_CHANNEL"
  "fromCharCode 100 = CHR ''d''"
  "fromCharCode 114 = RESULT_CHANNEL"
  "fromCharCode 76 = LINE_CHANNEL"
  by (simp_all add: fromCharCode_nat OUTPUT_CHANNEL_def RESULT_CHANNEL_def
        LINE_CHANNEL_def ERROR_CHANNEL_def)

lemma channels_distinct [simp]:
  "OUTPUT_CHANNEL \<noteq> RESULT_CHANNEL" "OUTPUT_CHANNEL \<noteq> LINE_CHANNEL"
  "ERROR_CHANNEL \<noteq> RESULT_CHANNEL" "ERROR_CHANNEL \<noteq> LINE_CHANNEL"
  "ERROR_CHANNEL \<noteq> OUTPUT_CHANNEL" "LINE_CHANNEL \<noteq> RESULT_CHANNEL"
  "CHR ''d'' \<noteq> RESULT_CHANNEL" "CHR ''d'' \<noteq> LINE_CHANNEL"
  "CHR ''d'' \<noteq> OUTPUT_CHANNEL" "CHR ''d'' \<noteq> ERROR_CHANNEL"
  by (simp_all add: OUTPUT_CHANNEL_def RESULT_CHANNEL_def LINE_CHANNEL_def ERROR_CHANNEL_def)

lemma length_encodeFrame: "5 \<le> length (encodeFrame f)"
  by (cases f) simp_all

lemma unat32_less: "unat (w :: 32 word) < 2 ^ 32"
  using unsigned_less [of w, where 'a = nat] by simp

lemma loopBody_frame:
  assumes "wellFormed f"
  shows "loopBody h p (pre @ encodeFrame f @ post) (length pre) s
           = (case frameEffect h f s of
                Inl e \<Rightarrow> Throw e s
              | Inr s1 \<Rightarrow> closeCommand (length pre + length (encodeFrame f)) s1)"
proof (cases f)
  case (OutputFrame body)
  let ?data = "pre @ encodeFrame f @ post"
  have t: "readUInt8 ?data (length pre) = Some 111"
    using readUInt8_at [of pre "length pre" "0x6F"] OutputFrame by simp
  have l: "readUInt32BE ?data (length pre + 1) = Some (length body)"
    using readUInt32BE_write [of "length body" "pre @ [0x6F]" "length pre + 1" "body @ post"]
      assms OutputFrame by simp
  have b: "slice ?data (length pre + 5) (length pre + 5 + length body) = body"
    using slice_at [of "pre @ 0x6F # writeUInt32BE (length body)" "length pre + 5" body post]
      OutputFrame by simp
  show ?thesis
    using t l b OutputFrame
    by (simp add: loopBody_def Let_def add.assoc split: sum.splits)
next
  case (ErrorFrame body)
  let ?data = "pre @ encodeFrame f @ post"
  have t: "readUInt8 ?data (length pre) = Some 101"
    using readUInt8_at [of pre "length pre" "0x65"] ErrorFrame by simp
  have l: "readUInt32BE ?data (length pre + 1) = Some (length body)"
    using readUInt32BE_write [of "length body" "pre @ [0x65]" "length pre + 1" "body @ post"]
      assms ErrorFrame by simp
  have b: "slice ?data (length pre + 5) (length pre + 5 + length body) = body"
    using slice_at [of "pre @ 0x65 # writeUInt32BE (length body)" "length pre + 5" body post]
      ErrorFrame by simp
  show ?thesis
    using t l b ErrorFrame
    by (simp add: loopBody_def Let_def add.assoc split: sum.splits)
next
  case (DebugFrame body)
  let ?data = "pre @ encodeFrame f @ post"
  have t: "readUInt8 ?data (length pre) = Some 100"
    using readUInt8_at [of pre "length pre" "0x64"] DebugFrame by simp
  have l: "readUInt32BE ?data (length pre + 1) = Some (length body)"
    using readUInt32BE_write [of "length body" "pre @ [0x64]" "length pre + 1" "body @ post"]
      assms DebugFrame by simp
  have b: "slice ?data (length pre + 5) (length pre + 5 + length body) = body"
    using slice_at [of "pre @ 0x64 # writeUInt32BE (length body)" "length pre + 5" body post]
      DebugFrame by simp
  show ?thesis
    using t l b DebugFrame
    by (simp add: loopBody_def Let_def add.assoc split: sum.splits)
next
  case (ResultFrame code)
  let ?data = "pre @ encodeFrame f @ post"
  have t: "readUInt8 ?data (length pre) = Some 114"
    using readUInt8_at [of pre "length pre" "0x72"] ResultFrame by simp
  have l: "readUInt32BE ?data (length pre + 1) = Some 4"
    using readUInt32BE_write [of 4 "pre @ [0x72]" "length pre + 1"
             "writeUInt32BE (unat code) @ post"] ResultFrame by simp
  have c: "readUInt32BE ?data (length pre + 5) = Some (unat code)"
    using readUInt32BE_write [of "unat code" "pre @ 0x72 # writeUInt32BE 4" "length pre + 5" post]
      unat32_less [of code] ResultFrame by simp
  show ?thesis
    using t l c ResultFrame by (simp add: loopBody_def Let_def add.assoc)
qed

subsection \<open>The listener on whole frames\<close>

lemma closeCommand_shift:
  "closeCommand offset s =
     (case closeCommand 0 s of
        Continue k s' \<Rightarrow> Continue offset s'
      | Return s' \<Rightarrow> Return s'
      | Throw e s' \<Rightarrow> Throw e s'
      | Await out len k s' \<Rightarrow> Await out len k s')"
  by (simp add: closeCommand_def Let_def split: option.splits prod.splits)

lemma closeCommand_no_throw: "closeCommand offset s \<noteq> Throw e s'"
  by (simp add: closeCommand_def Let_def split: option.splits prod.splits)

lemma closeCommand_no_await: "closeCommand offset s \<noteq> Await out len k s'"
  by (simp add: closeCommand_def Let_def split: option.splits prod.splits)

lemma stdoutLoop_frames:
  "list_all wellFormed fs \<Longrightarrow>
     stdoutLoop h p (pre @ encodeFrames fs) (length pre) s = dispatch h fs s"
proof (induction fs arbitrary: pre s)
  case Nil
  then show ?case by (simp add: encodeFrames_def stdoutLoop.simps)
next
  case (Cons f fs)
  let ?data = "pre @ encodeFrames (f # fs)"
  have data: "?data = pre @ encodeFrame f @ encodeFrames fs"
    by (simp add: encodeFrames_def)
  have lt: "length pre < length ?data"
    using length_encodeFrame [of f] unfolding data by (cases "encodeFrame f") simp_all
  have wf: "wellFormed f" and wfs: "list_all wellFormed fs"
    using Cons.prems by simp_all
  have body: "loopBody h p ?data (length pre) s
                = (case frameEffect h f s of
                     Inl e \<Rightarrow> Throw e s
                   | Inr s1 \<Rightarrow> closeCommand (length pre + length (encodeFrame f)) s1)"
    unfolding data by (rule loopBody_frame [OF wf])
  have next_frames: "\<And>s'. stdoutLoop h p ?data (length pre + length (encodeFrame f)) s'
                        = dispatch h fs s'"
    using Cons.IH [OF wfs, of "pre @ encodeFrame f"] by (simp add: encodeFrames_def)
  show ?case
  proof (cases "frameEffect h f s")
    case (Inl e)
    then show ?thesis
      using lt body by (subst stdoutLoop.simps) simp
  next
    case (Inr s1)
    show ?thesis
    proof (cases "closeCommand 0 s1")
      case (Continue k s')
      then have "loopBody h p ?data (length pre) s
                   = Continue (length pre + length (encodeFrame f)) s'"
        using body Inr closeCommand_shift [of "length pre + length (encodeFrame f)" s1] by simp
      then show ?thesis
        using lt next_frames Continue Inr by (subst stdoutLoop.simps) simp
    next
      case (Return s')
      then have "loopBody h p ?data (length pre) s = Return s'"
        using body Inr closeCommand_shift [of "length pre + length (encodeFrame f)" s1] by simp
      then show ?thesis
        using lt Return Inr by (subst stdoutLoop.simps) simp
    next
      case (Throw e s')
      then show ?thesis using closeCommand_no_throw by blast
    next
      case (Await out len k s')
      then show ?thesis using closeCommand_no_await by blast
    qed
  qed
qed

lemma stdoutData_frames:
  "list_all wellFormed fs \<Longrightarrow>
     stdoutData h (encodeFrames fs) s =
       (case serverProcess s of None \<Rightarrow> Returned s | Some p \<Rightarrow> dispatch h fs s)"
  using stdoutLoop_frames [of fs h _ "[]" s]
  by (simp add: stdoutData_def split: option.splits)

subsection \<open>The example server\<close>

lemma byteText_bytes [simp]: "byteText (bytes text) = text"
proof -
  have "char_of (unat (word_of_nat (of_char c :: nat) :: byte)) = c" for c :: char
  proof -
    have "(of_char c :: nat) < 256" by simp
    then have "unat (word_of_nat (of_char c :: nat) :: byte) = of_char c"
      by (simp add: unat_of_nat)
    then show ?thesis by simp
  qed
  then show ?thesis by (simp add: byteText_def bytes_def comp_def)
qed

lemma length_bytes [simp]: "length (bytes text) = length text"
  by (simp add: bytes_def)

lemma exampleHost_simps [simp]:
  "toString exampleHost = (\<lambda>enc b. Inr (byteText b))"
  "handleChoices exampleHost = (\<lambda>out n. ''yes'')"
  "process_env exampleHost = []" "process_cwd exampleHost = ''/repo''"
  by (simp_all add: exampleHost_def)

lemma strictHost_simps [simp]:
  "toString strictHost (Some ''cp1252'') (b # bs) = Inl (TypeError ''Unknown encoding: cp1252'')"
  "toString strictHost enc [] = Inr []"
  "enc \<noteq> Some ''cp1252'' \<Longrightarrow> toString strictHost enc bs = Inr (byteText bs)"
  "handleChoices strictHost = (\<lambda>out n. ''yes'')"
  "process_env strictHost = []" "process_cwd strictHost = ''/repo''"
  by (simp_all add: strictHost_def byteText_def)

lemma startServer_example:
  "startServer exampleHost ''hg'' ''/repo'' =
     \<lparr>hgPath = ''hg'',
      config = [''--config'', ''ui.interactive=True'', ''serve'', ''--cmdserver'',
                ''pipe'', ''--cwd'', ''/repo''],
      serverProcess = None, starting = True, encoding = None, capabilities = None,
      commandQueue = [], stopWhenQueueEmpty = False, errorBuffers = [],
      outputBodies = [], errorBodies = [], exitCode' = None,
      spawns = [\<lparr>command = ''hg'',
                 spawn_args = [''--config'', ''ui.interactive=True'', ''serve'',
                               ''--cmdserver'', ''pipe'', ''--cwd'', ''/repo''],
                 env = [(''HGENCODING'', ''UTF-8'')], cwd = ''hg''\<rparr>],
      spawned = Some 0, startPromise = Pending, settled = [], deferreds = 0,
      stdin = [], logged = []\<rparr>"
  by (simp add: startServer_def start_def spawnCommandServerProcess_def spawnHgServer_def
        constructor_def processEnv_def)

lemma greeting_parse:
  "parseCapabilitiesAndEncoding
     (''capabilities: getencoding runcommand'' @ [CHR 0x0A] @ ''encoding: UTF-8'')
   = Inr ([''getencoding'', ''runcommand''], ''UTF-8'')"
  by (simp add: parseCapabilitiesAndEncoding_def matchFirst_def lineTerminator_def)


subsection \<open>The first output burst\<close>

lemma firstData_output:
  assumes "spawned s = Some process" and "length body < 2 ^ 32"
  shows "firstData h (encodeFrames [OutputFrame body]) s =
     (let s1 = s\<lparr>spawned := None, starting := False\<rparr> in
      case toString h (encoding s) body of
        Inl e \<Rightarrow> Threw e s1
      | Inr text \<Rightarrow>
         (case parseCapabilitiesAndEncoding (filter (\<lambda>c. c \<noteq> CHR 0x00) text) of
            Inl e \<Rightarrow> Threw e s1
          | Inr (caps, enc) \<Rightarrow>
              let s2 = s1\<lparr>capabilities := Some caps, encoding := Some enc\<rparr>;
                  s3 = (if ''runcommand'' \<notin> set caps
                        then settleStart (Rejected (Message ''runcommand not available'')) s2
                        else s2);
                  s4 = settleStart (Fulfilled process) s3
              in Returned (if startPromise s4 = Fulfilled process
                           then startResumed process s4 else s4)))"
proof -
  let ?data = "encodeFrames [OutputFrame body]"
  have t: "readUInt8 ?data 0 = Some 111"
    using readUInt8_at [of "[]" 0 "0x6F"] by (simp add: encodeFrames_def)
  have l: "readUInt32BE ?data 1 = Some (length body)"
    using readUInt32BE_write [of "length body" "[0x6F]" 1 body] assms(2)
    by (simp add: encodeFrames_def)
  have b: "slice ?data 5 (5 + length body) = body"
    using slice_at [of "0x6F # writeUInt32BE (length body)" 5 body "[]"]
    by (simp add: encodeFrames_def)
  have c: "OUTPUT_CHANNEL \<noteq> CHR ''r''"
    by (simp add: OUTPUT_CHANNEL_def)
  show ?thesis
    using t l b c assms(1)
    by (simp add: firstData_def handshakeBody_def Let_def split: sum.splits)
qed

lemma exampleServer_eq:
  "exampleServer =
     \<lparr>hgPath = ''hg'',
      config = [''--config'', ''ui.interactive=True'', ''serve'', ''--cmdserver'',
                ''pipe'', ''--cwd'', ''/repo''],
      serverProcess = Some 0, starting = False, encoding = Some ''UTF-8'',
      capabilities = Some [''getencoding'', ''runcommand''],
      commandQueue = [], stopWhenQueueEmpty = False, errorBuffers = [],
      outputBodies = [], errorBodies = [], exitCode' = None,
      spawns = [\<lparr>command = ''hg'',
                 spawn_args = [''--config'', ''ui.interactive=True'', ''serve'',
                               ''--cmdserver'', ''pipe'', ''--cwd'', ''/repo''],
                 env = [(''HGENCODING'', ''UTF-8'')], cwd = ''hg''\<rparr>],
      spawned = None, startPromise = Fulfilled 0, settled = [], deferreds = 0,
      stdin = [], logged = []\<rparr>"
proof -
  have "firstData exampleHost greeting (startServer exampleHost ''hg'' ''/repo'') = Returned
     \<lparr>hgPath = ''hg'',
      config = [''--config'', ''ui.interactive=True'', ''serve'', ''--cmdserver'',
                ''pipe'', ''--cwd'', ''/repo''],
      serverProcess = Some 0, starting = False, encoding = Some ''UTF-8'',
      capabilities = Some [''getencoding'', ''runcommand''],
      commandQueue = [], stopWhenQueueEmpty = False, errorBuffers = [],
      outputBodies = [], errorBodies = [], exitCode' = None,
      spawns = [\<lparr>command = ''hg'',
                 spawn_args = [''--config'', ''ui.interactive=True'', ''serve'',
                               ''--cmdserver'', ''pipe'', ''--cwd'', ''/repo''],
                 env = [(''HGENCODING'', ''UTF-8'')], cwd = ''hg''\<rparr>],
      spawned = None, startPromise = Fulfilled 0, settled = [], deferreds = 0,
      stdin = [], logged = []\<rparr>"
    unfolding greeting_def
    by (subst firstData_output [where process = 0])
       (simp_all add: startServer_example greeting_parse [simplified] Let_def
          settleStart_def startResumed_def attachListeners_def reset_def)
  then show ?thesis by (simp add: exampleServer_def stateOf_def)
qed

lemma oneCommand_eq:
  "oneCommand =
     \<lparr>hgPath = ''hg'',
      config = [''--config'', ''ui.interactive=True'', ''serve'', ''--cmdserver'',
                ''pipe'', ''--cwd'', ''/repo''],
      serverProcess = Some 0, starting = False, encoding = Some ''UTF-8'',
      capabilities = Some [''getencoding'', ''runcommand''],
      commandQueue = [\<lparr>cmd = ''runcommand'', args = [''status''], result = 0\<rparr>],
      stopWhenQueueEmpty = False, errorBuffers = [],
      outputBodies = [], errorBodies = [], exitCode' = None,
      spawns = [\<lparr>command = ''hg'',
                 spawn_args = [''--config'', ''ui.interactive=True'', ''serve'',
                               ''--cmdserver'', ''pipe'', ''--cwd'', ''/repo''],
                 env = [(''HGENCODING'', ''UTF-8'')], cwd = ''hg''\<rparr>],
      spawned = None, startPromise = Fulfilled 0, settled = [], deferreds = 1,
      stdin = [(0, SendCommand (Some ''UTF-8'') ''runcommand'' [''status''])], logged = []\<rparr>"
  by (simp add: oneCommand_def exampleServer_eq runcommand_def enqueueCommand_def)

subsection \<open>C9: a command with no server process\<close>

text \<open>
  C9. A command enqueued while no server process is running is refused at once: the
  call returns a promise that is already rejected with the not-started message, and
  the object is unchanged, so no command joins the queue and nothing is written to a
  stream.
\<close>

theorem runcommand_not_running:
  "serverProcess s = None \<Longrightarrow>
     runcommand as s = (RejectedPromise ''HGCommandServer is not started'', s)"
  by (simp add: runcommand_def enqueueCommand_def)

theorem runcommand_not_running_witness:
  "serverProcess (constructor None) = None \<and>
   runcommand [''status''] (constructor None)
     = (RejectedPromise ''HGCommandServer is not started'', constructor None)"
  using runcommand_not_running [of "constructor None" "[''status'']"]
  by (simp add: constructor_def)

subsection \<open>C4: one command, an output frame and a result frame\<close>

text \<open>
  C4. With exactly one command enqueued, an output frame with body \<open>hello\<close> followed
  by a result frame with exit code 0 resolves that command's future with standard
  output \<open>hello\<close>, empty standard error and exit code 0, and the accumulators of
  output and error text are empty again for the next command.
\<close>

theorem hello_then_result:
  assumes "serverProcess s = Some p" and "commandQueue s = []"
    and "outputBodies s = []" and "errorBodies s = []" and "exitCode' s = None"
    and "toString h (encoding s) (bytes ''hello'') = Inr ''hello''"
  shows "fst (runcommand as s) = DeferredPromise (deferreds s) \<and>
         (\<exists>s'. stdoutData h (encodeFrames [OutputFrame (bytes ''hello''), ResultFrame 0])
                 (snd (runcommand as s)) = Returned s' \<and>
               settled s' = settled s @
                 [(deferreds s, Resolve \<lparr>exitCode = 0, stdout = ''hello'', stderr = ''''\<rparr>)] \<and>
               commandQueue s' = [] \<and>
               outputBodies s' = [] \<and> errorBodies s' = [] \<and> exitCode' s' = None)"
  using assms
  by (simp add: stdoutData_frames runcommand_def enqueueCommand_def closeCommand_def
        dequeueCommand_def reset_def stop_def Let_def)

theorem hello_then_result_witness:
  "serverProcess exampleServer = Some 0 \<and> commandQueue exampleServer = [] \<and>
   outputBodies exampleServer = [] \<and> errorBodies exampleServer = [] \<and>
   exitCode' exampleServer = None \<and>
   toString exampleHost (encoding exampleServer) (bytes ''hello'') = Inr ''hello'' \<and>
   fst (runcommand [''status''] exampleServer) = DeferredPromise 0 \<and>
   (\<exists>s'. stdoutData exampleHost (encodeFrames [OutputFrame (bytes ''hello''), ResultFrame 0])
           (snd (runcommand [''status''] exampleServer)) = Returned s' \<and>
         settled s' = [(0, Resolve \<lparr>exitCode = 0, stdout = ''hello'', stderr = ''''\<rparr>)] \<and>
         commandQueue s' = [] \<and>
         outputBodies s' = [] \<and> errorBodies s' = [] \<and> exitCode' s' = None)"
  using hello_then_result [of exampleServer 0 exampleHost "[''status'']"]
  by (simp add: exampleServer_eq)

subsection \<open>C5: the exit code of a result frame\<close>

text \<open>
  C5. The claim is that the four bytes of a result frame are read as a signed integer,
  so that a negative exit code reaches the command's future. The \<open>data\<close> listener
  reads them with \<open>readUInt32BE\<close>: the frame whose body is \<open>FF FF FF FF\<close>, which
  is -1 as a signed integer and which the listener of the first output burst would
  read as -1 with \<open>readInt32BE\<close>, resolves the command with exit code 4294967295.
\<close>

theorem result_read_unsigned:
  "sint (0xFFFFFFFF :: 32 word) = - 1 \<and>
   readInt32BE (writeUInt32BE (unat (0xFFFFFFFF :: 32 word))) 0 = Some (- 1) \<and>
   stdoutData exampleHost (encodeFrames [ResultFrame 0xFFFFFFFF]) oneCommand
     = Returned (oneCommand\<lparr>commandQueue := [],
          settled := [(0, Resolve \<lparr>exitCode = 4294967295, stdout = [], stderr = []\<rparr>)]\<rparr>)"
proof -
  have "readUInt32BE (writeUInt32BE 4294967295) 0 = Some 4294967295"
    using readUInt32BE_write [of 4294967295 "[]" 0 "[]"] by simp
  then have "readInt32BE (writeUInt32BE (unat (0xFFFFFFFF :: 32 word))) 0 = Some (- 1)"
    by (simp add: readInt32BE_def)
  moreover have "stdoutData exampleHost (encodeFrames [ResultFrame 0xFFFFFFFF]) oneCommand
     = Returned (oneCommand\<lparr>commandQueue := [],
          settled := [(0, Resolve \<lparr>exitCode = 4294967295, stdout = [], stderr = []\<rparr>)]\<rparr>)"
    by (simp add: stdoutData_frames oneCommand_eq closeCommand_def dequeueCommand_def
          reset_def Let_def)
  moreover have "sint (0xFFFFFFFF :: 32 word) = - 1"
    by simp
  ultimately show ?thesis by blast
qed

subsection \<open>C7: a first output burst that cannot be parsed\<close>

lemma dead_server:
  "serverProcess s = None \<Longrightarrow> spawned s = None \<Longrightarrow> react h e s = s"
  by (cases e)
     (simp_all add: runcommand_def enqueueCommand_def stop_def stdoutDataAnswered_def
        stateOf_def stderrData_def exitEvent_def firstData_def firstStderr_def)

lemma hello_unparsable:
  "parseCapabilitiesAndEncoding ''hello'' = Inl (Error ''Unable to parse capabilities: hello'')"
  by (simp add: parseCapabilitiesAndEncoding_def matchFirst_def matchSecond_def)

text \<open>
  C7. The claim is that \<open>start\<close> is rejected when the body of the first output
  frame does not match the pattern. \<open>parseCapabilitiesAndEncoding\<close> throws inside
  the listener of the first \<open>data\<close>, so neither \<open>c\<close> nor \<open>e\<close> is called: with
  the body \<open>hello\<close> the listener throws, the promise of \<open>start\<close> stays pending and
  no process becomes the server process, and no later call or event changes that.
\<close>

theorem unparsable_greeting_never_settles:
  "\<exists>s'. firstData exampleHost (encodeFrames [OutputFrame (bytes ''hello'')])
           (startServer exampleHost ''hg'' ''/repo'')
          = Threw (Error ''Unable to parse capabilities: hello'') s' \<and>
        startPromise s' = Pending \<and> serverProcess s' = None \<and>
        (\<forall>e. react exampleHost e s' = s')"
proof -
  let ?s' = "(startServer exampleHost ''hg'' ''/repo'')\<lparr>spawned := None, starting := False\<rparr>"
  have "firstData exampleHost (encodeFrames [OutputFrame (bytes ''hello'')])
           (startServer exampleHost ''hg'' ''/repo'')
          = Threw (Error ''Unable to parse capabilities: hello'') ?s'"
    by (subst firstData_output [where process = 0])
       (simp_all add: startServer_example hello_unparsable Let_def)
  moreover have "startPromise ?s' = Pending" "serverProcess ?s' = None"
    by (simp_all add: startServer_example)
  moreover have "\<forall>e. react exampleHost e ?s' = ?s'"
    using dead_server [of ?s' exampleHost] by (simp add: startServer_example)
  ultimately show ?thesis by blast
qed

subsection \<open>C3: exit of the server process\<close>

text \<open>
  C3, as the code has it. When the running server process exits, the \<open>exit\<close>
  listener logs the exit, releases the old process and spawns a new one with the same
  options; every command that was pending is still in the queue, and no \<open>resolve\<close>
  or \<open>reject\<close> of a command's deferred is called.
\<close>

theorem exit_keeps_pending:
  assumes "serverProcess s = Some p"
  shows "commandQueue (exitEvent h code s) = commandQueue s \<and>
         settled (exitEvent h code s) = settled s \<and>
         logged (exitEvent h code s) = logged s @ [exitMessage code] \<and>
         serverProcess (exitEvent h code s) = None \<and>
         spawned (exitEvent h code s) = Some (length (spawns s)) \<and>
         spawns (exitEvent h code s) = spawns s @
           [\<lparr>command = ''hg'', spawn_args = config s, env = processEnv h,
             cwd = (if hgPath s = [] then process_cwd h else hgPath s)\<rparr>]"
  using assms
  by (simp add: exitEvent_def stop_def start_def spawnCommandServerProcess_def
        spawnHgServer_def Let_def)

theorem exit_keeps_pending_witness:
  "serverProcess oneCommand = Some 0 \<and>
   commandQueue (exitEvent exampleHost (Some 1) oneCommand) = commandQueue oneCommand \<and>
   settled (exitEvent exampleHost (Some 1) oneCommand) = settled oneCommand \<and>
   serverProcess (exitEvent exampleHost (Some 1) oneCommand) = None \<and>
   spawned (exitEvent exampleHost (Some 1) oneCommand) = Some 1"
  using exit_keeps_pending [of oneCommand 0 exampleHost "Some 1"]
  by (simp add: oneCommand_eq)

text \<open>
  The claim itself, that every pending command is rejected before the restart, fails:
  the command enqueued before the exit is still pending after it, and nothing was
  settled.
\<close>

theorem exit_keeps_pending_counterexample:
  "commandQueue oneCommand = [\<lparr>cmd = ''runcommand'', args = [''status''], result = 0\<rparr>] \<and>
   commandQueue (exitEvent exampleHost (Some 1) oneCommand)
     = [\<lparr>cmd = ''runcommand'', args = [''status''], result = 0\<rparr>] \<and>
   settled (exitEvent exampleHost (Some 1) oneCommand) = []"
  by (simp add: oneCommand_eq exitEvent_def stop_def start_def
        spawnCommandServerProcess_def spawnHgServer_def Let_def)

subsection \<open>C8: the environment of the spawned process\<close>

lemma update_fold_map_of:
  "map_of (foldl (\<lambda>obj (k, v). AList.update k v obj) init kvs) = map_of init ++ map_of (rev kvs)"
  by (induction kvs arbitrary: init) (auto simp: update_conv' fun_eq_iff map_add_def split: option.splits)

lemma map_of_rev_distinct: "distinct (map fst kvs) \<Longrightarrow> map_of (rev kvs) = map_of kvs"
proof (induction kvs)
  case Nil
  then show ?case by simp
next
  case (Cons kv kvs)
  obtain k v where kv: "kv = (k, v)" by (cases kv)
  have "map_of kvs k = None"
    using Cons.prems kv by (simp add: map_of_eq_None_iff)
  then show ?case
    using Cons kv by (auto simp: fun_eq_iff map_add_def split: option.splits)
qed

text \<open>
  C8, as the code has it. The environment given to \<open>spawn\<close> is the caller's
  environment, with \<open>HGENCODING=UTF-8\<close> added only where the caller's environment
  does not define \<open>HGENCODING\<close>: the spread of \<open>process.env\<close> comes after the
  literal property and overwrites it.
\<close>

theorem spawn_environment:
  assumes "distinct (map fst (process_env h))"
  shows "env (last (spawns (snd (spawnHgServer h path s)))) = processEnv h \<and>
         map_of (processEnv h) k =
           (case map_of (process_env h) k of
              Some v \<Rightarrow> Some v
            | None \<Rightarrow> if k = ''HGENCODING'' then Some ''UTF-8'' else None)"
  using assms
  by (simp add: spawnHgServer_def processEnv_def update_fold_map_of map_of_rev_distinct
        map_add_def split: option.splits)

theorem spawn_environment_witness:
  "distinct (map fst (process_env exampleHost)) \<and>
   env (last (spawns (snd (spawnHgServer exampleHost ''hg'' (constructor None)))))
     = processEnv exampleHost \<and>
   map_of (processEnv exampleHost) ''HGENCODING'' = Some ''UTF-8''"
  using spawn_environment [of exampleHost "''hg''" "constructor None" "''HGENCODING''"]
  by simp

text \<open>
  The claim itself, that the child sees \<open>HGENCODING=UTF-8\<close> even when the caller's
  environment defines it otherwise, fails for a caller with \<open>HGENCODING=latin1\<close>.
\<close>

theorem inherited_encoding_counterexample:
  "map_of (env (last (spawns (snd (spawnHgServer
       (exampleHost\<lparr>process_env := [(''HGENCODING'', ''latin1'')]\<rparr>) ''hg''
       (constructor None))))))
     ''HGENCODING'' = Some ''latin1''"
  by (simp add: spawnHgServer_def processEnv_def)

subsection \<open>The second example server\<close>

lemma startServer_strict:
  "startServer strictHost ''hg'' ''/repo'' = startServer exampleHost ''hg'' ''/repo''"
  by (simp add: startServer_def start_def spawnCommandServerProcess_def spawnHgServer_def
        processEnv_def)

lemma legacyGreeting_parse:
  "parseCapabilitiesAndEncoding
     (''capabilities: getencoding runcommand'' @ [CHR 0x0A] @ ''encoding: cp1252'')
   = Inr ([''getencoding'', ''runcommand''], ''cp1252'')"
  by (simp add: parseCapabilitiesAndEncoding_def matchFirst_def lineTerminator_def)

lemma legacyCommand_eq:
  "legacyCommand = oneCommand\<lparr>encoding := Some ''cp1252'',
     stdin := [(0, SendCommand (Some ''cp1252'') ''runcommand'' [''status''])]\<rparr>"
proof -
  have "firstData strictHost legacyGreeting (startServer strictHost ''hg'' ''/repo'')
          = Returned (exampleServer\<lparr>encoding := Some ''cp1252''\<rparr>)"
    unfolding legacyGreeting_def
    by (subst firstData_output [where process = 0])
       (simp_all add: startServer_strict startServer_example legacyGreeting_parse [simplified]
          Let_def settleStart_def startResumed_def attachListeners_def reset_def
          exampleServer_eq)
  then show ?thesis
    by (simp add: legacyCommand_def stateOf_def oneCommand_eq exampleServer_eq runcommand_def
          enqueueCommand_def)
qed

lemma oneCommand_fields [simp]:
  "serverProcess oneCommand = Some 0" "exitCode' oneCommand = None"
  "outputBodies oneCommand = []" "errorBodies oneCommand = []"
  "encoding oneCommand = Some ''UTF-8''" "stopWhenQueueEmpty oneCommand = False"
  "commandQueue oneCommand = [\<lparr>cmd = ''runcommand'', args = [''status''], result = 0\<rparr>]"
  "settled oneCommand = []"
  by (simp_all add: oneCommand_eq)

lemma legacyCommand_fields [simp]:
  "serverProcess legacyCommand = Some 0" "exitCode' legacyCommand = None"
  "outputBodies legacyCommand = []" "errorBodies legacyCommand = []"
  "encoding legacyCommand = Some ''cp1252''" "stopWhenQueueEmpty legacyCommand = False"
  "commandQueue legacyCommand = [\<lparr>cmd = ''runcommand'', args = [''status''], result = 0\<rparr>]"
  "settled legacyCommand = []"
  by (simp_all add: legacyCommand_eq)

subsection \<open>C6: a frame on an unknown channel\<close>

lemma closeCommand_open: "exitCode' s = None \<Longrightarrow> closeCommand offset s = Continue offset s"
  by (simp add: closeCommand_def)

lemma loopBody_other:
  assumes "readUInt8 data offset = Some b"
    and "readUInt32BE data (offset + 1) = Some len"
    and "fromCharCode b \<notin> {OUTPUT_CHANNEL, ERROR_CHANNEL, RESULT_CHANNEL, LINE_CHANNEL}"
    and "exitCode' s = None"
  shows "loopBody h p data offset s
           = (case toString h (encoding s) (slice data (offset + 5) (offset + 5 + len)) of
                Inl e \<Rightarrow> Throw e s
              | Inr body \<Rightarrow> Continue (offset + 5 + len) s)"
  using assms by (simp add: loopBody_def Let_def closeCommand_open split: sum.splits)

text \<open>
  C6, as the code has it. A frame whose channel is none of \<open>o\<close>, \<open>e\<close>,
  \<open>r\<close>, \<open>L\<close> is treated as a frame on channel \<open>d\<close> is: its body is decoded as
  text, and where the decoder throws, the listener ends with that error; otherwise the
  loop body appends nothing, settles nothing and goes on behind the frame's body.
  No future is rejected in either case. \<open>getChanName\<close>, which throws for such a
  channel other than \<open>d\<close>, is not called by the listener.
\<close>

theorem unknown_tag_skipped:
  assumes "readUInt8 data offset = Some b"
    and "readUInt32BE data (offset + 1) = Some len"
    and "fromCharCode b \<notin> {OUTPUT_CHANNEL, ERROR_CHANNEL, RESULT_CHANNEL, LINE_CHANNEL}"
    and "exitCode' s = None"
  shows "loopBody h p data offset s
           = (case toString h (encoding s) (slice data (offset + 5) (offset + 5 + len)) of
                Inl e \<Rightarrow> Throw e s
              | Inr body \<Rightarrow> Continue (offset + 5 + len) s) \<and>
         (fromCharCode b \<noteq> CHR ''d'' \<longrightarrow>
            getChanName (fromCharCode b)
              = Inl (Error (''Unknown channel '' @ [CHR 0x27, fromCharCode b, CHR 0x27])))"
  using assms loopBody_other [OF assms]
  by (simp add: getChanName_def
        OUTPUT_CHANNEL_def ERROR_CHANNEL_def RESULT_CHANNEL_def LINE_CHANNEL_def)

lemma x_frame:
  "readUInt8 (0x78 # writeUInt32BE 2 @ bytes ''hi'') 0 = Some 120"
  "readUInt32BE (0x78 # writeUInt32BE 2 @ bytes ''hi'') (0 + 1) = Some 2"
  "slice (0x78 # writeUInt32BE 2 @ bytes ''hi'') (0 + 5) (0 + 5 + 2) = bytes ''hi''"
  "fromCharCode 120 = CHR ''x''"
  using readUInt8_at [of "[]" 0 "0x78" "writeUInt32BE 2 @ bytes ''hi''"]
        readUInt32BE_write [of 2 "[0x78]" 1 "bytes ''hi''"]
        slice_at [of "0x78 # writeUInt32BE 2" 5 "bytes ''hi''" "[]"]
  by (simp_all add: fromCharCode_nat)

lemma bytes_hi: "bytes ''hi'' = [104, 105]"
  by (simp add: bytes_def)

theorem unknown_tag_skipped_witness:
  "readUInt8 (0x78 # writeUInt32BE 2 @ bytes ''hi'') 0 = Some 120 \<and>
   readUInt32BE (0x78 # writeUInt32BE 2 @ bytes ''hi'') (0 + 1) = Some 2 \<and>
   fromCharCode 120 \<notin> {OUTPUT_CHANNEL, ERROR_CHANNEL, RESULT_CHANNEL, LINE_CHANNEL} \<and>
   exitCode' oneCommand = None \<and> exitCode' legacyCommand = None \<and>
   loopBody exampleHost 0 (0x78 # writeUInt32BE 2 @ bytes ''hi'') 0 oneCommand
     = Continue 7 oneCommand \<and>
   loopBody strictHost 0 (0x78 # writeUInt32BE 2 @ bytes ''hi'') 0 legacyCommand
     = Throw (TypeError ''Unknown encoding: cp1252'') legacyCommand \<and>
   getChanName (fromCharCode 120)
     = Inl (Error (''Unknown channel '' @ [CHR 0x27, CHR ''x'', CHR 0x27]))"
  using unknown_tag_skipped [of "0x78 # writeUInt32BE 2 @ bytes ''hi''" 0 120 2 oneCommand
          exampleHost 0]
        unknown_tag_skipped [of "0x78 # writeUInt32BE 2 @ bytes ''hi''" 0 120 2 legacyCommand
          strictHost 0] x_frame
  by (simp add: OUTPUT_CHANNEL_def ERROR_CHANNEL_def RESULT_CHANNEL_def LINE_CHANNEL_def
        bytes_hi)

text \<open>
  The claim itself, that the open command's future is rejected, fails: a frame on
  channel \<open>x\<close> leaves the object as it was, the command still pending.
\<close>

theorem unknown_tag_counterexample:
  "fromCharCode (unat (0x78 :: byte)) = CHR ''x'' \<and>
   commandQueue oneCommand \<noteq> [] \<and>
   stdoutData exampleHost (0x78 # writeUInt32BE 2 @ bytes ''hi'') oneCommand
     = Returned oneCommand"
proof -
  have step: "loopBody exampleHost 0 (0x78 # writeUInt32BE 2 @ bytes ''hi'') 0 oneCommand
          = Continue 7 oneCommand"
    using loopBody_other [of "0x78 # writeUInt32BE 2 @ bytes ''hi''" 0 120 2 oneCommand
            exampleHost 0] x_frame
    by (simp add: OUTPUT_CHANNEL_def ERROR_CHANNEL_def RESULT_CHANNEL_def LINE_CHANNEL_def)
  have "stdoutLoop exampleHost 0 (0x78 # writeUInt32BE 2 @ bytes ''hi'') 0 oneCommand
          = Returned oneCommand"
    by (subst stdoutLoop.simps, simp add: step, subst stdoutLoop.simps, simp)
  then show ?thesis
    using x_frame by (simp add: stdoutData_def)
qed

subsection \<open>C2: frames and arrivals\<close>

lemma frameEffect_same:
  "frameEffect h f s = Inr s1 \<Longrightarrow>
     serverProcess s1 = serverProcess s \<and> encoding s1 = encoding s \<and>
     settled s1 = settled s \<and> commandQueue s1 = commandQueue s \<and>
     stopWhenQueueEmpty s1 = stopWhenQueueEmpty s \<and> spawned s1 = spawned s"
  by (cases f) (auto split: sum.splits)

lemma frameEffect_decodable:
  "decodable h (encoding s) f \<Longrightarrow> \<exists>s1. frameEffect h f s = Inr s1"
  by (cases f) (auto split: sum.splits)

lemma closeCommand_Continue_same:
  "closeCommand offset s = Continue k s' \<Longrightarrow>
     serverProcess s' = serverProcess s \<and> encoding s' = encoding s"
  by (auto simp: closeCommand_def dequeueCommand_def reset_def Let_def
           split: option.splits list.splits if_splits)

lemma closeCommand_Return_serverProcess:
  "closeCommand offset s = Return s' \<Longrightarrow> serverProcess s \<noteq> None \<Longrightarrow> serverProcess s' = None"
  by (auto simp: closeCommand_def dequeueCommand_def reset_def stop_def Let_def
           split: option.splits list.splits if_splits)

lemma dispatch_append:
  "serverProcess s = Some p \<Longrightarrow> list_all (decodable h (encoding s)) fs1 \<Longrightarrow>
     \<exists>s1. dispatch h fs1 s = Returned s1 \<and>
          dispatch h (fs1 @ fs2) s =
            (if serverProcess s1 = None then Returned s1 else dispatch h fs2 s1) \<and>
          (serverProcess s1 = None \<or> serverProcess s1 = Some p)"
proof (induction fs1 arbitrary: s)
  case Nil
  then show ?case by simp
next
  case (Cons f fs1)
  obtain s0 where s0: "frameEffect h f s = Inr s0"
    using frameEffect_decodable [of h s f] Cons.prems(2) by auto
  have same: "serverProcess s0 = Some p" "encoding s0 = encoding s"
    using frameEffect_same [OF s0] Cons.prems(1) by simp_all
  show ?case
  proof (cases "closeCommand 0 s0")
    case (Continue k s')
    have p: "serverProcess s' = Some p" and e: "encoding s' = encoding s"
      using closeCommand_Continue_same [OF Continue] same by simp_all
    have d1: "dispatch h (f # fs1) s = dispatch h fs1 s'"
      and d2: "dispatch h ((f # fs1) @ fs2) s = dispatch h (fs1 @ fs2) s'"
      using Continue s0 by simp_all
    have "list_all (decodable h (encoding s')) fs1"
      using Cons.prems(2) e by simp
    then show ?thesis unfolding d1 d2 by (rule Cons.IH [OF p])
  next
    case (Return s')
    then have "serverProcess s' = None"
      using closeCommand_Return_serverProcess [OF Return] same by simp
    then show ?thesis using Return s0 by simp
  next
    case (Throw e s')
    then show ?thesis using closeCommand_no_throw by blast
  next
    case (Await out len k s')
    then show ?thesis using closeCommand_no_await by blast
  qed
qed

text \<open>
  C2, as the code has it. The listener keeps no bytes from one arrival to the next.
  Whole frames of the output, error, debug and result channels that are delivered in
  two arrivals, cut between two frames, are dispatched as they are in one arrival,
  with the same appends and the same resolutions, where the bodies of the first arrival
  are text in the negotiated encoding.
\<close>

theorem whole_frames_across_arrivals:
  assumes "list_all wellFormed fs1" and "list_all wellFormed fs2"
    and "list_all (decodable h (encoding s)) fs1"
  shows "stdoutData h (encodeFrames fs2) (stateOf (stdoutData h (encodeFrames fs1) s))
           = stdoutData h (encodeFrames (fs1 @ fs2)) s \<and>
         stdoutData h (encodeFrames (fs1 @ fs2)) s
           = (case serverProcess s of
                None \<Rightarrow> Returned s
              | Some p \<Rightarrow> dispatch h (fs1 @ fs2) s)"
proof (cases "serverProcess s")
  case None
  then show ?thesis
    using assms by (simp add: stdoutData_frames stateOf_def)
next
  case (Some p)
  have both: "list_all wellFormed (fs1 @ fs2)" using assms by simp
  obtain s1 where s1: "dispatch h fs1 s = Returned s1"
    "dispatch h (fs1 @ fs2) s = (if serverProcess s1 = None then Returned s1 else dispatch h fs2 s1)"
    using dispatch_append [OF Some assms(3), of fs2] by blast
  have first: "stateOf (stdoutData h (encodeFrames fs1) s) = s1"
    using s1(1) Some by (simp add: stdoutData_frames [OF assms(1)] stateOf_def)
  have second: "stdoutData h (encodeFrames fs2) s1
                  = (if serverProcess s1 = None then Returned s1 else dispatch h fs2 s1)"
    by (auto simp: stdoutData_frames [OF assms(2)] split: option.splits)
  show ?thesis
    unfolding first second using s1(2) Some by (simp add: stdoutData_frames [OF both])
qed

theorem whole_frames_across_arrivals_witness:
  "list_all wellFormed [OutputFrame (bytes ''hello'')] \<and>
   list_all wellFormed [ResultFrame 0] \<and>
   list_all (decodable exampleHost (encoding oneCommand)) [OutputFrame (bytes ''hello'')] \<and>
   stdoutData exampleHost (encodeFrames [ResultFrame 0])
     (stateOf (stdoutData exampleHost (encodeFrames [OutputFrame (bytes ''hello'')]) oneCommand))
     = stdoutData exampleHost (encodeFrames ([OutputFrame (bytes ''hello'')] @ [ResultFrame 0]))
         oneCommand \<and>
   stdoutData exampleHost (encodeFrames ([OutputFrame (bytes ''hello'')] @ [ResultFrame 0]))
       oneCommand
     = Returned (oneCommand\<lparr>commandQueue := [],
         settled := [(0, Resolve \<lparr>exitCode = 0, stdout = ''hello'', stderr = []\<rparr>)]\<rparr>)"
proof -
  have "dispatch exampleHost ([OutputFrame (bytes ''hello'')] @ [ResultFrame 0]) oneCommand
     = Returned (oneCommand\<lparr>commandQueue := [],
         settled := [(0, Resolve \<lparr>exitCode = 0, stdout = ''hello'', stderr = []\<rparr>)]\<rparr>)"
    by (simp add: closeCommand_def dequeueCommand_def reset_def Let_def oneCommand_eq)
  then show ?thesis
    using whole_frames_across_arrivals
          [of "[OutputFrame (bytes ''hello'')]" "[ResultFrame 0]" exampleHost oneCommand]
    by simp
qed

lemma hello_split: "(0x6F # writeUInt32BE 5 @ bytes ''he'') @ bytes ''llo''
   = encodeFrames [OutputFrame (bytes ''hello'')]"
  by (simp add: encodeFrames_def bytes_def eval_nat_numeral)

text \<open>
  The claim itself, for a cut inside a frame, fails: of the output frame \<open>hello\<close>
  cut after seven bytes, the first arrival appends \<open>he\<close>, and the second arrival is
  read as a new frame and throws a \<open>RangeError\<close>.
\<close>

theorem split_frame_counterexample:
  "(0x6F # writeUInt32BE 5 @ bytes ''he'') @ bytes ''llo''
     = encodeFrames [OutputFrame (bytes ''hello'')] \<and>
   stdoutData exampleHost (encodeFrames [OutputFrame (bytes ''hello'')]) oneCommand
     = Returned (oneCommand\<lparr>outputBodies := [''hello'']\<rparr>) \<and>
   stdoutData exampleHost (bytes ''llo'')
     (stateOf (stdoutData exampleHost (0x6F # writeUInt32BE 5 @ bytes ''he'') oneCommand))
     = Threw RangeError (oneCommand\<lparr>outputBodies := [''he'']\<rparr>)"
proof -
  let ?first = "0x6F # writeUInt32BE 5 @ bytes ''he''"
  have whole: "stdoutData exampleHost (encodeFrames [OutputFrame (bytes ''hello'')]) oneCommand
     = Returned (oneCommand\<lparr>outputBodies := [''hello'']\<rparr>)"
    by (simp add: stdoutData_frames closeCommand_def)
  have l: "readUInt32BE ?first 1 = Some 5"
    using readUInt32BE_write [of 5 "[0x6F]" 1 "bytes ''he''"] by simp
  have b: "slice ?first 5 10 = bytes ''he''"
    by (simp add: slice_def)
  have step1: "loopBody exampleHost 0 ?first 0 oneCommand
                 = Continue 10 (oneCommand\<lparr>outputBodies := [''he'']\<rparr>)"
    using l b by (simp add: loopBody_def readUInt8_def Let_def closeCommand_def)
  have "stdoutLoop exampleHost 0 ?first 0 oneCommand
                 = Returned (oneCommand\<lparr>outputBodies := [''he'']\<rparr>)"
    by (subst stdoutLoop.simps, simp add: step1, subst stdoutLoop.simps, simp)
  then have first: "stdoutData exampleHost ?first oneCommand
                 = Returned (oneCommand\<lparr>outputBodies := [''he'']\<rparr>)"
    by (simp add: stdoutData_def)
  have step2: "loopBody exampleHost 0 (bytes ''llo'') 0 (oneCommand\<lparr>outputBodies := [''he'']\<rparr>)
                 = Throw RangeError (oneCommand\<lparr>outputBodies := [''he'']\<rparr>)"
    by (simp add: loopBody_def readUInt8_def readUInt32BE_def Let_def)
  have "stdoutLoop exampleHost 0 (bytes ''llo'') 0 (oneCommand\<lparr>outputBodies := [''he'']\<rparr>)
                 = Threw RangeError (oneCommand\<lparr>outputBodies := [''he'']\<rparr>)"
    by (subst stdoutLoop.simps, simp add: step2)
  then have second: "stdoutData exampleHost (bytes ''llo'') (oneCommand\<lparr>outputBodies := [''he'']\<rparr>)
                 = Threw RangeError (oneCommand\<lparr>outputBodies := [''he'']\<rparr>)"
    by (simp add: stdoutData_def)
  show ?thesis
    using hello_split whole first second by (simp add: stateOf_def)
qed

subsection \<open>C10: a result frame with no command pending\<close>

lemma exampleServer_fields [simp]:
  "serverProcess exampleServer = Some 0" "exitCode' exampleServer = None"
  "outputBodies exampleServer = []" "errorBodies exampleServer = []"
  "encoding exampleServer = Some ''UTF-8''" "stopWhenQueueEmpty exampleServer = False"
  "commandQueue exampleServer = []" "settled exampleServer = []"
  "deferreds exampleServer = 0"
  by (simp_all add: exampleServer_eq)

lemma result_on_empty_queue:
  assumes "commandQueue s = []"
  shows "closeCommand offset (s\<lparr>exitCode' := Some code\<rparr>)
           = (if stopWhenQueueEmpty s then Return (stop False (reset s))
              else Continue offset (reset s))"
proof -
  have r: "reset (s\<lparr>exitCode' := Some code\<rparr>) = reset s"
    by (simp add: reset_def)
  have q: "commandQueue (reset s) = []" "stopWhenQueueEmpty (reset s) = stopWhenQueueEmpty s"
    using assms by (simp_all add: reset_def)
  show ?thesis
    using assms q by (simp add: closeCommand_def dequeueCommand_def r Let_def)
qed

text \<open>
  C10, as the code has it. A result frame that is decoded while the command queue is
  empty is consumed without an error: nothing is resolved or rejected and the
  accumulators are reset. The loop then goes on with the bytes behind the frame, so
  that the frames that follow in the arrival are dispatched, unless a stop was
  deferred: with the stop-when-empty flag set the listener stops the server process
  and returns, and the bytes behind the frame are not decoded.
\<close>

theorem result_with_empty_queue:
  assumes "serverProcess s = Some p" and "commandQueue s = []" and "list_all wellFormed fs"
  shows "loopBody h p (pre @ encodeFrame (ResultFrame code) @ rest) (length pre) s
           = (if stopWhenQueueEmpty s then Return (stop False (reset s))
              else Continue (length pre + 9) (reset s)) \<and>
         stdoutData h (encodeFrames (ResultFrame code # fs)) s
           = (if stopWhenQueueEmpty s then Returned (stop False (reset s))
              else dispatch h fs (reset s)) \<and>
         stop False (reset s)
           = (reset s)\<lparr>stdin := stdin s @ [(p, End)], serverProcess := None\<rparr> \<and>
         settled (reset s) = settled s \<and> commandQueue (reset s) = [] \<and>
         outputBodies (reset s) = [] \<and> errorBodies (reset s) = [] \<and>
         exitCode' (reset s) = None"
proof -
  let ?data = "pre @ encodeFrame (ResultFrame code) @ rest"
  have body: "loopBody h p ?data (length pre) s
                = (if stopWhenQueueEmpty s then Return (stop False (reset s))
                   else Continue (length pre + 9) (reset s))"
    using loopBody_frame [of "ResultFrame code" h p pre rest s]
      result_on_empty_queue [OF assms(2)]
    by simp
  have "dispatch h (ResultFrame code # fs) s
          = (if stopWhenQueueEmpty s then Returned (stop False (reset s))
             else dispatch h fs (reset s))"
    using result_on_empty_queue [OF assms(2), of 0] by simp
  then have frames: "stdoutData h (encodeFrames (ResultFrame code # fs)) s
                       = (if stopWhenQueueEmpty s then Returned (stop False (reset s))
                          else dispatch h fs (reset s))"
    using stdoutData_frames [of "ResultFrame code # fs" h s] assms(1,3) by simp
  have stopped: "stop False (reset s)
                   = (reset s)\<lparr>stdin := stdin s @ [(p, End)], serverProcess := None\<rparr>"
    using assms(1,2) by (simp add: stop_def reset_def)
  show ?thesis
    using body frames stopped assms(2) by (simp add: reset_def)
qed

lemma drained_eq:
  "drained = oneCommand\<lparr>hgPath := ''hg'', serverProcess := None, starting := True,
     commandQueue := [], stopWhenQueueEmpty := True,
     spawns := spawns oneCommand @ [\<lparr>command = ''hg'', spawn_args = config oneCommand,
                env = [(''HGENCODING'', ''UTF-8'')], cwd = ''hg''\<rparr>],
     spawned := Some 1, startPromise := Pending,
     settled := [(0, Resolve \<lparr>exitCode = 0, stdout = [], stderr = []\<rparr>)],
     stdin := stdin oneCommand @ [(0, End), (0, SendLineInput (Some ''UTF-8'') ''yes'')],
     logged := [exitMessage (Some 1)]\<rparr>"
proof -
  let ?data = "lineRequest 4 @ encodeFrames [ResultFrame 0]"
  let ?s3 = "exitEvent exampleHost (Some 1) (stop False oneCommand)"
  have s3: "?s3 = oneCommand\<lparr>hgPath := ''hg'', serverProcess := None, starting := True,
     stopWhenQueueEmpty := True,
     spawns := spawns oneCommand @ [\<lparr>command = ''hg'', spawn_args = config oneCommand,
                env = [(''HGENCODING'', ''UTF-8'')], cwd = ''hg''\<rparr>],
     spawned := Some 1, startPromise := Pending,
     stdin := stdin oneCommand @ [(0, End)],
     logged := [exitMessage (Some 1)]\<rparr>"
    by (simp add: exitEvent_def stop_def start_def spawnCommandServerProcess_def
          spawnHgServer_def processEnv_def Let_def oneCommand_eq)
  let ?s4 = "?s3\<lparr>stdin := stdin ?s3 @ [(0, SendLineInput (encoding ?s3) ''yes'')]\<rparr>"
  have after: "afterAwait 0 5 ''yes'' ?s3 = Continue 5 ?s4"
    unfolding s3 by (simp add: afterAwait_def closeCommand_def)
  have loop: "stdoutLoop exampleHost 0 ?data 5 ?s4 = dispatch exampleHost [ResultFrame 0] ?s4"
    using stdoutLoop_frames [of "[ResultFrame 0]" exampleHost 0 "lineRequest 4" ?s4]
    by (simp add: lineRequest_def)
  have "resumeListener exampleHost 0 ?data 5 ''yes'' ?s3
          = dispatch exampleHost [ResultFrame 0] ?s4"
    using after loop by (simp add: resumeListener_def)
  then show ?thesis
    unfolding drained_def s3
    by (simp add: closeCommand_def dequeueCommand_def reset_def stop_def stateOf_def Let_def
          oneCommand_eq)
qed

lemma restarted_eq:
  "restarted = drained\<lparr>serverProcess := Some 1, starting := False, spawned := None,
     startPromise := Fulfilled 1\<rparr>"
proof -
  have "firstData exampleHost greeting drained
          = Returned (drained\<lparr>serverProcess := Some 1, starting := False, spawned := None,
               startPromise := Fulfilled 1\<rparr>)"
    unfolding greeting_def
    by (subst firstData_output [where process = 1])
       (simp_all add: drained_eq oneCommand_eq greeting_parse [simplified] Let_def
          settleStart_def startResumed_def attachListeners_def reset_def)
  then show ?thesis by (simp add: restarted_def stateOf_def)
qed

lemma restarted_fields [simp]:
  "serverProcess restarted = Some 1" "commandQueue restarted = []"
  "stopWhenQueueEmpty restarted = True" "outputBodies restarted = []"
  "errorBodies restarted = []" "errorBuffers restarted = []" "exitCode' restarted = None"
  "encoding restarted = Some ''UTF-8''"
  by (simp_all add: restarted_eq drained_eq oneCommand_eq)

theorem result_with_empty_queue_witness:
  "serverProcess exampleServer = Some 0 \<and> commandQueue exampleServer = [] \<and>
   serverProcess restarted = Some 1 \<and> commandQueue restarted = [] \<and>
   list_all wellFormed [OutputFrame (bytes ''hello'')] \<and>
   \<not> stopWhenQueueEmpty exampleServer \<and> stopWhenQueueEmpty restarted \<and>
   loopBody exampleHost 0 (encodeFrame (ResultFrame 0) @ encodeFrame (OutputFrame (bytes ''hello'')))
     0 exampleServer = Continue 9 (reset exampleServer) \<and>
   stdoutData exampleHost (encodeFrames [ResultFrame 0, OutputFrame (bytes ''hello'')])
     exampleServer = Returned (exampleServer\<lparr>outputBodies := [''hello'']\<rparr>) \<and>
   stdoutData exampleHost (encodeFrames [ResultFrame 0, OutputFrame (bytes ''hello'')])
     restarted
     = Returned (restarted\<lparr>stdin := stdin restarted @ [(1, End)], serverProcess := None\<rparr>)"
proof -
  have r: "reset exampleServer = exampleServer" "reset restarted = restarted"
    by (simp_all add: reset_def exampleServer_eq restarted_eq drained_eq oneCommand_eq)
  show ?thesis
    using result_with_empty_queue [of exampleServer 0
            "[OutputFrame (bytes ''hello'')]" exampleHost "[]" 0
            "encodeFrame (OutputFrame (bytes ''hello''))"]
          result_with_empty_queue [of restarted 1
            "[OutputFrame (bytes ''hello'')]" exampleHost "[]" 0
            "encodeFrame (OutputFrame (bytes ''hello''))"]
    by (simp add: r closeCommand_def)
qed

lemma line_request_suspends:
  "stdoutData exampleHost (lineRequest 4 @ encodeFrames [ResultFrame 0]) oneCommand
     = Suspended [] 4 5 oneCommand"
proof -
  let ?data = "lineRequest 4 @ encodeFrames [ResultFrame 0]"
  have l: "readUInt32BE ?data 1 = Some 4"
    using readUInt32BE_write [of 4 "[0x4C]" 1 "encodeFrames [ResultFrame 0]"]
    by (simp add: lineRequest_def)
  have "loopBody exampleHost 0 ?data 0 oneCommand = Await [] 4 5 oneCommand"
    using l by (simp add: loopBody_def readUInt8_def Let_def lineRequest_def)
  then have "stdoutLoop exampleHost 0 ?data 0 oneCommand = Suspended [] 4 5 oneCommand"
    by (subst stdoutLoop.simps) (simp add: lineRequest_def)
  then show ?thesis by (simp add: stdoutData_def)
qed

text \<open>
  The claim itself, that the loop goes on with the bytes behind the frame in every case,
  fails in an object that a deferred stop has outlived: the listener of the first
  process waits for the answer to a line request while \<open>stop\<close> is called and the
  process exits; the answer comes before the new process has sent its first output, so
  that the listener resolves the last command with no process to stop. In the restarted
  object the queue is empty and the flag still set: of a result frame followed by an
  output frame, the result frame stops the server and the output frame is not decoded.
\<close>

theorem deferred_stop_counterexample:
  "stdoutData exampleHost (lineRequest 4 @ encodeFrames [ResultFrame 0]) oneCommand
     = Suspended [] 4 5 oneCommand \<and>
   resumeListener exampleHost 0 (lineRequest 4 @ encodeFrames [ResultFrame 0]) 5 ''yes''
       (exitEvent exampleHost (Some 1) (stop False oneCommand))
     = Returned drained \<and>
   firstData exampleHost greeting drained = Returned restarted \<and>
   serverProcess restarted = Some 1 \<and> commandQueue restarted = [] \<and>
   stopWhenQueueEmpty restarted \<and>
   stdoutData exampleHost (encodeFrames [ResultFrame 0, OutputFrame (bytes ''hello'')])
       restarted
     = Returned (restarted\<lparr>stdin := stdin restarted @ [(1, End)], serverProcess := None\<rparr>) \<and>
   outputBodies (restarted\<lparr>stdin := stdin restarted @ [(1, End)], serverProcess := None\<rparr>)
     = []"
proof -
  let ?data = "lineRequest 4 @ encodeFrames [ResultFrame 0]"
  let ?s3 = "exitEvent exampleHost (Some 1) (stop False oneCommand)"
  have "\<exists>s. resumeListener exampleHost 0 ?data 5 ''yes'' ?s3 = Returned s"
  proof -
    let ?s4 = "?s3\<lparr>stdin := stdin ?s3 @ [(0, SendLineInput (encoding ?s3) ''yes'')]\<rparr>"
    have q: "commandQueue ?s3 = commandQueue oneCommand" "exitCode' ?s3 = None"
      "stopWhenQueueEmpty ?s3" "serverProcess ?s3 = None"
      by (simp_all add: exitEvent_def stop_def start_def spawnCommandServerProcess_def
            spawnHgServer_def Let_def)
    have after: "afterAwait 0 5 ''yes'' ?s3 = Continue 5 ?s4"
      using q by (simp add: afterAwait_def closeCommand_def)
    have loop: "stdoutLoop exampleHost 0 ?data 5 ?s4 = dispatch exampleHost [ResultFrame 0] ?s4"
      using stdoutLoop_frames [of "[ResultFrame 0]" exampleHost 0 "lineRequest 4" ?s4]
      by (simp add: lineRequest_def)
    have "\<exists>s. dispatch exampleHost [ResultFrame 0] ?s4 = Returned s"
      using q by (simp add: closeCommand_def dequeueCommand_def reset_def stop_def Let_def)
    then show ?thesis
      using after loop by (simp add: resumeListener_def)
  qed
  then have resumed: "resumeListener exampleHost 0 ?data 5 ''yes'' ?s3 = Returned drained"
    by (auto simp: drained_def stateOf_def)
  have first: "firstData exampleHost greeting drained = Returned restarted"
  proof -
    have "firstData exampleHost greeting drained
          = Returned (drained\<lparr>serverProcess := Some 1, starting := False, spawned := None,
               startPromise := Fulfilled 1\<rparr>)"
      unfolding greeting_def
      by (subst firstData_output [where process = 1])
         (simp_all add: drained_eq oneCommand_eq greeting_parse [simplified] Let_def
            settleStart_def startResumed_def attachListeners_def reset_def)
    then show ?thesis by (simp add: restarted_eq)
  qed
  have r: "reset restarted = restarted"
    by (simp add: reset_def restarted_eq drained_eq oneCommand_eq)
  have "dispatch exampleHost [ResultFrame 0, OutputFrame (bytes ''hello'')] restarted
          = Returned (restarted\<lparr>stdin := stdin restarted @ [(1, End)], serverProcess := None\<rparr>)"
    using result_on_empty_queue [of restarted 0 0]
    by (simp add: r stop_def)
  then have last: "stdoutData exampleHost
       (encodeFrames [ResultFrame 0, OutputFrame (bytes ''hello'')]) restarted
     = Returned (restarted\<lparr>stdin := stdin restarted @ [(1, End)], serverProcess := None\<rparr>)"
    by (simp add: stdoutData_frames)
  show ?thesis
    using line_request_suspends resumed first last by simp
qed

subsection \<open>Line requests that are answered at once\<close>

text \<open>
  Where the interaction module answers every line request before the next call or
  event, the object stays steady, and so a deferred stop never meets an empty queue
  and a running process.
\<close>

lemma steady_closeCommand:
  assumes "steady s" and "serverProcess s = Some p"
  shows "closeCommand offset s = Continue k s' \<Longrightarrow> steady s' \<and> serverProcess s' = Some p"
    and "closeCommand offset s = Return s' \<Longrightarrow> steady s'"
  using assms
  by (auto simp: steady_def closeCommand_def dequeueCommand_def reset_def stop_def Let_def
           split: option.splits list.splits if_splits)

lemma loopBody_shape:
  "(\<exists>e. loopBody h p data offset s = Throw e s) \<or>
   (\<exists>out len k. loopBody h p data offset s = Await out len k s) \<or>
   (\<exists>k s1. loopBody h p data offset s = closeCommand k s1 \<and>
      serverProcess s1 = serverProcess s \<and> spawned s1 = spawned s \<and>
      stopWhenQueueEmpty s1 = stopWhenQueueEmpty s \<and> commandQueue s1 = commandQueue s)"
proof -
  have mk: "\<And>k s1. serverProcess s1 = serverProcess s \<Longrightarrow> spawned s1 = spawned s \<Longrightarrow>
      stopWhenQueueEmpty s1 = stopWhenQueueEmpty s \<Longrightarrow> commandQueue s1 = commandQueue s \<Longrightarrow>
      \<exists>k' s1'. closeCommand k s1 = closeCommand k' s1' \<and>
      serverProcess s1' = serverProcess s \<and> spawned s1' = spawned s \<and>
      stopWhenQueueEmpty s1' = stopWhenQueueEmpty s \<and> commandQueue s1' = commandQueue s"
    by blast
  show ?thesis
    by (auto simp: loopBody_def Let_def split: option.splits sum.splits intro!: mk)
qed

lemma steady_loopBody:
  assumes "steady s" and "serverProcess s = Some p"
  shows "(loopBody h p data offset s = Continue k s' \<longrightarrow> steady s' \<and> serverProcess s' = Some p)
      \<and> (loopBody h p data offset s = Return s' \<longrightarrow> steady s')
      \<and> (loopBody h p data offset s = Throw e s' \<longrightarrow> s' = s)
      \<and> (loopBody h p data offset s = Await out len k s' \<longrightarrow> s' = s)"
proof -
  consider (throw) e1 where "loopBody h p data offset s = Throw e1 s"
    | (await) out1 len1 k1 where "loopBody h p data offset s = Await out1 len1 k1 s"
    | (close) k1 s1 where "loopBody h p data offset s = closeCommand k1 s1"
        "serverProcess s1 = serverProcess s" "spawned s1 = spawned s"
        "stopWhenQueueEmpty s1 = stopWhenQueueEmpty s" "commandQueue s1 = commandQueue s"
    using loopBody_shape [of h p data offset s] by blast
  then show ?thesis
  proof cases
    case throw
    then show ?thesis by simp
  next
    case await
    then show ?thesis by simp
  next
    case close
    have s1: "steady s1" "serverProcess s1 = Some p"
      using assms close(2-5) by (simp_all add: steady_def)
    show ?thesis
      using steady_closeCommand [OF s1] close(1) closeCommand_no_throw closeCommand_no_await
      by auto
  qed
qed

lemma steady_stdoutLoop:
  "steady s \<Longrightarrow> serverProcess s = Some p \<Longrightarrow>
     steady (stateOf (stdoutLoop h p data offset s)) \<and>
     (\<forall>out len k s'. stdoutLoop h p data offset s = Suspended out len k s' \<longrightarrow>
        serverProcess s' = Some p)"
proof (induction h p data offset s rule: stdoutLoop.induct)
  case (1 h p data offset s)
  show ?case
  proof (cases "offset < length data")
    case False
    then show ?thesis using "1.prems" by (subst (1 2) stdoutLoop.simps) (simp add: stateOf_def)
  next
    case True
    show ?thesis
    proof (cases "loopBody h p data offset s")
      case (Continue k s')
      then have "steady s'" "serverProcess s' = Some p"
        using steady_loopBody [OF "1.prems", of h data offset] by blast+
      then have "steady (stateOf (stdoutLoop h p data k s')) \<and>
          (\<forall>out len k' s''. stdoutLoop h p data k s' = Suspended out len k' s'' \<longrightarrow>
             serverProcess s'' = Some p)"
        using "1.IH" [OF True Continue] by simp
      then show ?thesis using True Continue by (subst (1 2) stdoutLoop.simps) simp
    next
      case (Return s')
      then have "steady s'"
        using steady_loopBody [OF "1.prems", of h data offset] by blast
      then show ?thesis
        using True Return by (subst (1 2) stdoutLoop.simps) (simp add: stateOf_def)
    next
      case (Throw e s')
      then have "s' = s"
        using steady_loopBody [OF "1.prems", of h data offset] by blast
      then show ?thesis
        using True Throw "1.prems" by (subst (1 2) stdoutLoop.simps) (simp add: stateOf_def)
    next
      case (Await out len k s')
      then have "s' = s"
        using steady_loopBody [OF "1.prems", of h data offset] by blast
      then show ?thesis
        using True Await "1.prems" by (subst (1 2) stdoutLoop.simps) (simp add: stateOf_def)
    qed
  qed
qed

lemma steady_afterAwait:
  assumes "steady s" and "serverProcess s = Some p"
  shows "afterAwait p offset response s = Continue k s' \<Longrightarrow> steady s' \<and> serverProcess s' = Some p"
    and "afterAwait p offset response s = Return s' \<Longrightarrow> steady s'"
proof -
  let ?s1 = "s\<lparr>stdin := stdin s @ [(p, SendLineInput (encoding s) response)]\<rparr>"
  have s1: "steady ?s1" "serverProcess ?s1 = Some p"
    using assms by (simp_all add: steady_def)
  show "afterAwait p offset response s = Continue k s' \<Longrightarrow> steady s' \<and> serverProcess s' = Some p"
    using steady_closeCommand(1) [OF s1] by (simp add: afterAwait_def)
  show "afterAwait p offset response s = Return s' \<Longrightarrow> steady s'"
    using steady_closeCommand(2) [OF s1] by (simp add: afterAwait_def)
qed

lemma steady_stdoutLoopAnswered:
  "steady s \<Longrightarrow> serverProcess s = Some p \<Longrightarrow>
     steady (stateOf (stdoutLoopAnswered h p data offset s))"
proof (induction h p data offset s rule: stdoutLoopAnswered.induct)
  case (1 h p data offset s)
  have loop: "steady (stateOf (stdoutLoop h p data offset s))"
    and susp: "\<And>out len k s'. stdoutLoop h p data offset s = Suspended out len k s' \<Longrightarrow>
                 serverProcess s' = Some p"
    using steady_stdoutLoop [OF "1.prems", of h data offset] by blast+
  show ?case
  proof (cases "stdoutLoop h p data offset s")
    case (Returned s')
    then show ?thesis
      using loop by (subst stdoutLoopAnswered.simps) (simp add: stateOf_def)
  next
    case (Threw e s')
    then show ?thesis
      using loop by (subst stdoutLoopAnswered.simps) (simp add: stateOf_def)
  next
    case (Suspended out len k s')
    have s': "steady s'" "serverProcess s' = Some p"
      using loop susp [OF Suspended] Suspended by (simp_all add: stateOf_def)
    show ?thesis
    proof (cases "afterAwait p k (handleChoices h out len) s'")
      case (Continue k' s'')
      then have "steady s''" "serverProcess s'' = Some p"
        using steady_afterAwait(1) [OF s'] by simp_all
      then have "steady (stateOf (stdoutLoopAnswered h p data k' s''))"
        using "1.IH" [OF Suspended Continue] by simp
      then show ?thesis
        using Suspended Continue by (subst stdoutLoopAnswered.simps) simp
    next
      case (Return s'')
      then have "steady s''" using steady_afterAwait(2) [OF s'] by simp
      then show ?thesis
        using Suspended Return by (subst stdoutLoopAnswered.simps) (simp add: stateOf_def)
    next
      case (Throw e s'')
      then show ?thesis using closeCommand_no_throw by (simp add: afterAwait_def)
    next
      case (Await out' len' k' s'')
      then show ?thesis using closeCommand_no_await by (simp add: afterAwait_def)
    qed
  qed
qed

lemma steady_firstData: "steady s \<Longrightarrow> steady (stateOf (firstData h data s))"
  by (auto simp: steady_def firstData_def stateOf_def Let_def settleStart_def startResumed_def
        attachListeners_def reset_def split: option.splits sum.splits prod.splits)

lemma steady_react: "steady s \<Longrightarrow> steady (react h e s)"
proof (cases e)
  case (Runcommand as)
  assume "steady s"
  then show ?thesis
    using Runcommand
    by (auto simp: steady_def runcommand_def enqueueCommand_def Let_def split: option.splits)
next
  case (Stop force)
  assume "steady s"
  then show ?thesis
    using Stop by (auto simp: steady_def stop_def split: option.splits)
next
  case (StdoutData data)
  assume "steady s"
  then show ?thesis
    using StdoutData steady_stdoutLoopAnswered [of s _ h data 0]
    by (auto simp: stdoutDataAnswered_def stateOf_def split: option.splits)
next
  case (StderrData data)
  assume "steady s"
  then show ?thesis
    using StderrData by (auto simp: steady_def stderrData_def split: option.splits)
next
  case (Exit code)
  assume "steady s"
  then show ?thesis
    using Exit
    by (auto simp: steady_def exitEvent_def stop_def start_def spawnCommandServerProcess_def
          spawnHgServer_def Let_def split: option.splits)
next
  case (FirstData data)
  assume "steady s"
  then show ?thesis using FirstData steady_firstData by simp
next
  case (FirstStderr data)
  assume "steady s"
  then show ?thesis
    using FirstStderr
    by (auto simp: steady_def firstStderr_def settleStart_def split: option.splits)
qed

lemma steady_reachable: "reachable h s \<Longrightarrow> steady s"
proof (induction rule: reachable.induct)
  case (started path repository)
  show ?case
    by (simp add: steady_def startServer_def start_def spawnCommandServerProcess_def
          spawnHgServer_def constructor_def Let_def)
next
  case (reacted s e)
  then show ?case using steady_react by simp
qed

lemma reachable_exampleServer: "reachable exampleHost exampleServer"
proof -
  have "reachable exampleHost
          (react exampleHost (FirstData greeting) (startServer exampleHost ''hg'' ''/repo''))"
    by (rule reachable.reacted) (rule reachable.started)
  then show ?thesis by (simp add: exampleServer_def)
qed

lemma reachable_flag:
  "reachable h s \<Longrightarrow> serverProcess s \<noteq> None \<Longrightarrow> commandQueue s = [] \<Longrightarrow>
     \<not> stopWhenQueueEmpty s"
  using steady_reachable [of h s] by (auto simp: steady_def)

subsection \<open>C1: results in the order of the commands\<close>

















end
